theory Spec2Isabelle
  imports Complex_Main "HOL-Library.AList"
begin

section \<open>JavaScript values\<close>

text \<open>
  The client (\<^verbatim>\<open>src/frontend/src/App.tsx\<close>) and the tool bridge
  (\<^verbatim>\<open>src/unnamed/part_001\<close>, the last \<^verbatim>\<open>index.ts\<close> in it) handle elements that
  arrive as decoded JSON and are typed \<^verbatim>\<open>any\<close> where the code inspects them. An
  element is therefore modelled as the JavaScript object it is: a list of
  (property name, value) pairs in insertion order. A number is a rational:
  every finite double is one, JSON has neither \<^verbatim>\<open>NaN\<close> nor an infinity, and
  the code below never computes with numbers, it only tests them for
  truthiness and compares them (where \<^verbatim>\<open>-0\<close> and \<^verbatim>\<open>0\<close> are the same).
\<close>

datatype jsval =
    JUndefined
  | JNull
  | JBool bool
  | JNum rat
  | JStr string
  | JArr "jsval list"
  | JObj "(string \<times> jsval) list"

type_synonym obj = "(string \<times> jsval) list"

text \<open>JavaScript's \<^verbatim>\<open>ToBoolean\<close>: what \<^verbatim>\<open>if (v)\<close> and \<^verbatim>\<open>!v\<close> test.\<close>

fun truthy :: "jsval \<Rightarrow> bool" where
  "truthy JUndefined = False"
| "truthy JNull = False"
| "truthy (JBool b) = b"
| "truthy (JNum n) = (n \<noteq> 0)"
| "truthy (JStr s) = (s \<noteq> [])"
| "truthy (JArr _) = True"
| "truthy (JObj _) = True"

text \<open>\<^verbatim>\<open>typeof v === "object"\<close> (true of \<^verbatim>\<open>null\<close>, arrays and objects).\<close>

fun typeof_object :: "jsval \<Rightarrow> bool" where
  "typeof_object JNull = True"
| "typeof_object (JArr _) = True"
| "typeof_object (JObj _) = True"
| "typeof_object _ = False"

text \<open>\<^verbatim>\<open>v === null || v === undefined\<close>, the test behind \<^verbatim>\<open>?.\<close>\<close>

fun nullish :: "jsval \<Rightarrow> bool" where
  "nullish JUndefined = True"
| "nullish JNull = True"
| "nullish _ = False"

text \<open>
  Reading a property of an object, \<^verbatim>\<open>o.k\<close>: the stored value, or
  \<^verbatim>\<open>undefined\<close> when the object has no such property.
\<close>

definition getProp :: "obj \<Rightarrow> string \<Rightarrow> jsval" where
  "getProp el k = (case map_of el k of None \<Rightarrow> JUndefined | Some v \<Rightarrow> v)"

text \<open>
  Writing a property, \<^verbatim>\<open>o.k = v\<close> (and \<^verbatim>\<open>{...o, k: v}\<close>): an existing
  property keeps its place and takes the new value, a new one is added last.
\<close>

definition setProp :: "obj \<Rightarrow> string \<Rightarrow> jsval \<Rightarrow> obj" where
  "setProp el k v = AList.update k v el"

text \<open>
  Reading a property of any value that is neither \<^verbatim>\<open>null\<close> nor
  \<^verbatim>\<open>undefined\<close>, \<^verbatim>\<open>v.k\<close>. The names read this way (\<^verbatim>\<open>id\<close>, \<^verbatim>\<open>type\<close>,
  \<^verbatim>\<open>element\<close>, \<^verbatim>\<open>text\<close>, \<^verbatim>\<open>textAlign\<close>, \<^verbatim>\<open>texts\<close> and the like) are never
  \<^verbatim>\<open>length\<close> or an index, so arrays and primitive values have none of them.
\<close>

fun getMember :: "jsval \<Rightarrow> string \<Rightarrow> jsval" where
  "getMember (JObj kvs) k = getProp kvs k"
| "getMember _ k = JUndefined"

text \<open>
  \<^verbatim>\<open>SameValueZero\<close>, the comparison of \<^verbatim>\<open>Map\<close> keys and of
  \<^verbatim>\<open>Array.prototype.includes\<close>: primitive values are compared by value, arrays
  and objects by reference. Two values decoded from JSON never share a
  reference, so an array or object is the same as no other value.
\<close>

fun sameValueZero :: "jsval \<Rightarrow> jsval \<Rightarrow> bool" where
  "sameValueZero (JArr _) _ = False"
| "sameValueZero (JObj _) _ = False"
| "sameValueZero x y = (x = y)"

text \<open>
  \<^verbatim>\<open>new Map(entries)\<close> followed by \<^verbatim>\<open>.get(k)\<close>: the value of the last
  entry whose key is the same as \<^verbatim>\<open>k\<close> (a later entry overwrites an earlier
  one), \<^verbatim>\<open>undefined\<close> (\<open>None\<close>) when there is none.
\<close>

definition Map_get :: "(jsval \<times> 'v) list \<Rightarrow> jsval \<Rightarrow> 'v option" where
  "Map_get entries k =
     (case filter (\<lambda>e. sameValueZero (fst e) k) entries of
        [] \<Rightarrow> None
      | e # es \<Rightarrow> Some (snd (last (e # es))))"

text \<open>\<^verbatim>\<open>xs.includes(v)\<close>.\<close>

definition array_includes :: "jsval list \<Rightarrow> jsval \<Rightarrow> bool" where
  "array_includes xs v = list_ex (\<lambda>x. sameValueZero x v) xs"

section \<open>The Binding Validator (\<^verbatim>\<open>validateAndFixBindings\<close>, App.tsx 80--129)\<close>

text \<open>Line 83: \<^verbatim>\<open>new Map(elements.map((el) => [el.id!, el]))\<close>.\<close>

definition elementMap_of :: "obj list \<Rightarrow> (jsval \<times> obj) list" where
  "elementMap_of elements = map (\<lambda>el. (getProp el ''id'', el)) elements"

text \<open>Lines 92--105: the predicate handed to \<^verbatim>\<open>filter\<close>.\<close>

definition binding_ok :: "(jsval \<times> obj) list \<Rightarrow> jsval \<Rightarrow> bool" where
  "binding_ok elementMap binding =
     (if \<not> truthy binding \<or> \<not> typeof_object binding then False
      else if \<not> truthy (getMember binding ''id'') \<or> \<not> truthy (getMember binding ''type'') then False
      else if Map_get elementMap (getMember binding ''id'') = None then False
      else if \<not> array_includes [JStr ''text'', JStr ''arrow''] (getMember binding ''type'') then False
      else True)"

text \<open>
  Lines 89--116: the repair of \<^verbatim>\<open>boundElements\<close>. The \<open>JArr\<close> case is the
  branch where \<^verbatim>\<open>Array.isArray\<close> holds.
\<close>

definition fixBoundElements :: "(jsval \<times> obj) list \<Rightarrow> obj \<Rightarrow> obj" where
  "fixBoundElements elementMap fixedElement =
     (if truthy (getProp fixedElement ''boundElements'') then
        (case getProp fixedElement ''boundElements'' of
           JArr bindings \<Rightarrow>
             (let kept = filter (binding_ok elementMap) bindings in
              if length kept = 0 then setProp fixedElement ''boundElements'' JNull
              else setProp fixedElement ''boundElements'' (JArr kept))
         | _ \<Rightarrow> setProp fixedElement ''boundElements'' JNull)
      else fixedElement)"

text \<open>Lines 119--125: the repair of \<^verbatim>\<open>containerId\<close>.\<close>

definition fixContainerId :: "(jsval \<times> obj) list \<Rightarrow> obj \<Rightarrow> obj" where
  "fixContainerId elementMap fixedElement =
     (if truthy (getProp fixedElement ''containerId'') then
        (case Map_get elementMap (getProp fixedElement ''containerId'') of
           None \<Rightarrow> setProp fixedElement ''containerId'' JNull
         | Some containerElement \<Rightarrow> fixedElement)
      else fixedElement)"

text \<open>
  Lines 85--128: the callback of \<^verbatim>\<open>elements.map\<close>. The copy
  \<^verbatim>\<open>{ ...element }\<close> has the properties of \<^verbatim>\<open>element\<close> in the same order, and
  the input is left as it was since values are immutable here.
\<close>

definition fixElement :: "(jsval \<times> obj) list \<Rightarrow> obj \<Rightarrow> obj" where
  "fixElement elementMap element =
     (let fixedElement = element;
          fixedElement = fixBoundElements elementMap fixedElement;
          fixedElement = fixContainerId elementMap fixedElement
      in fixedElement)"

definition validateAndFixBindings :: "obj list \<Rightarrow> obj list" where
  "validateAndFixBindings elements =
     (let elementMap = elementMap_of elements
      in map (fixElement elementMap) elements)"

section \<open>The Tool Bridge (\<^verbatim>\<open>part_001\<close>, lines 590--935)\<close>

text \<open>
  The two constants read from the environment (lines 591--593). The flag is on
  unless \<^verbatim>\<open>ENABLE_CANVAS_SYNC\<close> is the string \<^verbatim>\<open>"false"\<close>.
\<close>

record config =
  EXPRESS_SERVER_URL :: string
  ENABLE_CANVAS_SYNC :: bool

text \<open>
  A call of \<^verbatim>\<open>fetch(url, options)\<close>. \<open>body_json\<close> is the value that
  \<^verbatim>\<open>JSON.stringify\<close> serialises into the body.
\<close>

record http_request =
  url :: string
  http_method :: string
  headers :: "(string \<times> string) list"
  body_json :: jsval

text \<open>
  What the network answers, a parameter of the model: \<^verbatim>\<open>fetch\<close> rejects
  with a message (endpoint unreachable), or resolves to a response with its
  \<^verbatim>\<open>ok\<close> flag, \<^verbatim>\<open>status\<close>, \<^verbatim>\<open>statusText\<close> and the result of
  \<^verbatim>\<open>response.json()\<close> (\<open>None\<close> when that rejects).
\<close>

datatype fetch_outcome =
    FetchRejects string
  | FetchResponse bool nat string "jsval option"

type_synonym network = "http_request \<Rightarrow> fetch_outcome"

text \<open>
  \<^verbatim>\<open>syncToCanvas\<close> (lines 611--658). The result is the value returned
  (\<open>JNull\<close> for \<^verbatim>\<open>null\<close>) with the list of network calls made. Every
  exception raised inside the \<^verbatim>\<open>try\<close> is caught and turned into \<^verbatim>\<open>null\<close>.
  \<open>create_request\<close> is the \<^verbatim>\<open>url\<close> and \<^verbatim>\<open>options\<close> of the \<^verbatim>\<open>"create"\<close>
  case (lines 634--640).
\<close>

definition create_request :: "config \<Rightarrow> jsval \<Rightarrow> http_request" where
  "create_request cfg data =
     \<lparr>url = EXPRESS_SERVER_URL cfg @ ''/api/elements'',
      http_method = ''POST'',
      headers = [(''Content-Type'', ''application/json'')],
      body_json = data\<rparr>"

definition syncToCanvas :: "config \<Rightarrow> network \<Rightarrow> string \<Rightarrow> jsval \<Rightarrow> jsval \<times> http_request list" where
  "syncToCanvas cfg fetch operation data =
     (if \<not> ENABLE_CANVAS_SYNC cfg then (JNull, [])
      else if operation = ''create'' then
        (let request = create_request cfg data
         in case fetch request of
              FetchRejects msg \<Rightarrow> (JNull, [request])
            | FetchResponse ok status statusText json \<Rightarrow>
                if \<not> ok then (JNull, [request])
                else (case json of
                        None \<Rightarrow> (JNull, [request])
                      | Some result \<Rightarrow> (result, [request])))
      else (JNull, []))"

text \<open>\<^verbatim>\<open>a || b\<close>.\<close>

definition js_or :: "jsval \<Rightarrow> jsval \<Rightarrow> jsval" where
  "js_or a b = (if truthy a then a else b)"

text \<open>\<^verbatim>\<open>v?.k\<close>.\<close>

definition optMember :: "jsval \<Rightarrow> string \<Rightarrow> jsval" where
  "optMember v k = (if nullish v then JUndefined else getMember v k)"

text \<open>\<^verbatim>\<open>createElementOnCanvas\<close> (lines 661--666).\<close>

definition createElementOnCanvas :: "config \<Rightarrow> network \<Rightarrow> jsval \<Rightarrow> jsval \<times> http_request list" where
  "createElementOnCanvas cfg fetch elementData =
     (let (result, calls) = syncToCanvas cfg fetch ''create'' elementData
      in (js_or (optMember result ''element'') elementData, calls))"

text \<open>
  The errors thrown inside the handler of tool calls (lines 858--935), and the
  \<^verbatim>\<open>TypeError\<close> the runtime raises when \<^verbatim>\<open>params.id\<close> is read from
  \<^verbatim>\<open>undefined\<close> or \<^verbatim>\<open>null\<close> arguments.
\<close>

datatype tool_error =
    IdRequired
  | TypeMustBeArrowLine
  | TypeMustBeFreehand
  | TypeMustBeGeometry
  | HttpServerUnavailable
  | UnknownTool string
  | ArgsTypeError string

fun error_message :: "tool_error \<Rightarrow> string" where
  "error_message IdRequired = ''Failed to create element: id is required''"
| "error_message TypeMustBeArrowLine = ''Failed to create element: type must be arrow-line''"
| "error_message TypeMustBeFreehand = ''Failed to create element: type must be freehand''"
| "error_message TypeMustBeGeometry = ''Failed to create element: type must be geometry''"
| "error_message HttpServerUnavailable = ''Failed to create element: HTTP server unavailable''"
| "error_message (UnknownTool name) = ''Unknown tool: '' @ name"
| "error_message (ArgsTypeError what) = ''Cannot read properties of '' @ what @ '' (reading 'id')''"

text \<open>
  The \<^verbatim>\<open>try\<close> block of the handler (lines 861--921): the error thrown or the
  element created, with the network calls made on the way.
\<close>

definition handleToolCall_try ::
  "config \<Rightarrow> network \<Rightarrow> string \<Rightarrow> jsval \<Rightarrow> (tool_error + jsval) \<times> http_request list" where
  "handleToolCall_try cfg fetch name args =
     (if name = ''create_geometry_element'' \<or> name = ''create_arrow_line_element''
         \<or> name = ''create_freehand_element'' then
        (let params = args in
         if nullish params
           then (Inl (ArgsTypeError (if params = JNull then ''null'' else ''undefined'')), [])
         else if \<not> truthy (getMember params ''id'') then (Inl IdRequired, [])
         else if name = ''create_arrow_line_element'' \<and> getMember params ''type'' \<noteq> JStr ''arrow-line''
           then (Inl TypeMustBeArrowLine, [])
         else if name = ''create_freehand_element'' \<and> getMember params ''type'' \<noteq> JStr ''freehand''
           then (Inl TypeMustBeFreehand, [])
         else if name = ''create_geometry_element'' \<and> getMember params ''type'' \<noteq> JStr ''geometry''
           then (Inl TypeMustBeGeometry, [])
         else
           (let (canvasElement, calls) = createElementOnCanvas cfg fetch params in
            if \<not> truthy canvasElement then (Inl HttpServerUnavailable, calls)
            else (Inr canvasElement, calls)))
      else (Inl (UnknownTool name), []))"

text \<open>
  The result handed back to the caller: \<^verbatim>\<open>content[0].text\<close> and
  \<^verbatim>\<open>isError\<close> (absent, hence false, on success). The text is a template
  string, kept as its pieces: literal text, and \<open>Json v\<close> for
  \<^verbatim>\<open>JSON.stringify(v, null, 2)\<close>.
\<close>

datatype fragment = Lit string | Json jsval

record tool_result =
  content_text :: "fragment list"
  isError :: bool

definition newline :: string where
  "newline = [CHR 0x0A]"

text \<open>The check mark U+2705 of the success message, in UTF-8.\<close>

definition check_mark :: string where
  "check_mark = [CHR 0xE2, CHR 0x9C, CHR 0x85]"

text \<open>The result returned after a creation (lines 908--920).\<close>

definition success_result :: "jsval \<Rightarrow> tool_result" where
  "success_result canvasElement =
     \<lparr>content_text =
        [Lit (''Element created successfully!'' @ newline @ newline),
         Json canvasElement,
         Lit (newline @ newline @ check_mark @ '' Synced to canvas'')],
      isError = False\<rparr>"

text \<open>The handler (lines 858--935), with the \<^verbatim>\<open>catch\<close> of lines 926--933.\<close>

definition handleToolCall ::
  "config \<Rightarrow> network \<Rightarrow> string \<Rightarrow> jsval \<Rightarrow> tool_result \<times> http_request list" where
  "handleToolCall cfg fetch name args =
     (case handleToolCall_try cfg fetch name args of
        (Inr canvasElement, calls) \<Rightarrow> (success_result canvasElement, calls)
      | (Inl error, calls) \<Rightarrow>
          (\<lparr>content_text = [Lit (''Error: '' @ error_message error)], isError = True\<rparr>, calls))"

text \<open>
  The repository endpoint is unreachable for a request: \<^verbatim>\<open>fetch\<close> throws, or
  the response is not \<^verbatim>\<open>ok\<close>.
\<close>

definition unreachable :: "network \<Rightarrow> http_request \<Rightarrow> bool" where
  "unreachable fetch request =
     (case fetch request of
        FetchRejects msg \<Rightarrow> True
      | FetchResponse ok status statusText json \<Rightarrow> \<not> ok)"

text \<open>
  A creation request that passes the handler's own checks: a recognised
  creation tool, arguments with a truthy \<^verbatim>\<open>id\<close>, and the \<^verbatim>\<open>type\<close> of the
  tool invoked.
\<close>

definition expected_type :: "string \<Rightarrow> string" where
  "expected_type name =
     (if name = ''create_arrow_line_element'' then ''arrow-line''
      else if name = ''create_freehand_element'' then ''freehand''
      else ''geometry'')"

definition creation_tool :: "string \<Rightarrow> bool" where
  "creation_tool name =
     (name = ''create_geometry_element'' \<or> name = ''create_arrow_line_element''
      \<or> name = ''create_freehand_element'')"

definition well_formed_request :: "string \<Rightarrow> jsval \<Rightarrow> bool" where
  "well_formed_request name args =
     (creation_tool name \<and> truthy (getMember args ''id'')
      \<and> getMember args ''type'' = JStr (expected_type name))"

section \<open>The client (App.tsx)\<close>

text \<open>
  What the client takes from outside, the parameters of the model: the value
  that \<^verbatim>\<open>idCreator()\<close> returns; the toolkit's \<^verbatim>\<open>buildText\<close> (an omitted second
  argument is \<^verbatim>\<open>undefined\<close>); the toolkit's \<^verbatim>\<open>Transforms.insertNode\<close>, which from
  the children of the board, a node and a path gives the new children; and
  the split of a string into the strings of one UTF-16 code unit each, which
  the byte strings of the model do not determine.
\<close>

record environment =
  idCreator :: string
  buildText :: "jsval \<Rightarrow> jsval \<Rightarrow> jsval"
  insertNode :: "jsval list \<Rightarrow> jsval \<Rightarrow> nat list \<Rightarrow> jsval list"
  codeUnits :: "string \<Rightarrow> string list"

text \<open>Decimal numerals, the names of the index properties of arrays and strings.\<close>

fun string_of_nat :: "nat \<Rightarrow> string" where
  "string_of_nat n =
     (if n < 10 then [char_of (48 + n)]
      else string_of_nat (n div 10) @ [char_of (48 + n mod 10)])"

declare string_of_nat.simps [simp del]

text \<open>
  The own enumerable properties that \<^verbatim>\<open>{ ...v }\<close> copies: those of an
  object, the indexed entries of an array, the code units of a string under
  their indices, none of any other value.
\<close>

fun spread :: "(string \<Rightarrow> string list) \<Rightarrow> jsval \<Rightarrow> obj" where
  "spread units (JObj kvs) = kvs"
| "spread units (JArr xs) = zip (map string_of_nat [0..<length xs]) xs"
| "spread units (JStr s) = zip (map string_of_nat [0..<length (units s)]) (map JStr (units s))"
| "spread units _ = []"

text \<open>
  \<^verbatim>\<open>convertPlaitElement\<close> (lines 131--150). \<open>None\<close> is the \<^verbatim>\<open>TypeError\<close> of
  reading a property of \<^verbatim>\<open>undefined\<close> or \<^verbatim>\<open>null\<close>, or of calling \<^verbatim>\<open>map\<close> on a
  value that has none. \<open>convertArrowLineText\<close> is the callback of lines
  144--147.
\<close>

definition convertArrowLineText :: "environment \<Rightarrow> jsval \<Rightarrow> jsval" where
  "convertArrowLineText env arrowLine =
     JObj (setProp (spread (codeUnits env) arrowLine) ''text''
             (buildText env (js_or (getMember arrowLine ''text'') (JStr [])) JUndefined))"

definition convertPlaitElement :: "environment \<Rightarrow> jsval \<Rightarrow> jsval option" where
  "convertPlaitElement env element =
     (if nullish element then None
      else if getMember element ''type'' = JStr ''geometry'' then
        Some (JObj (setProp (setProp (spread (codeUnits env) element) ''id'' (JStr (idCreator env)))
                ''text''
                (buildText env (js_or (getMember element ''text'') (JStr []))
                               (js_or (getMember element ''textAlign'') (JStr ''center'')))))
      else if getMember element ''type'' = JStr ''arrow-line'' then
        (case getMember element ''texts'' of
           JUndefined \<Rightarrow>
             Some (JObj (setProp (setProp (spread (codeUnits env) element) ''id'' (JStr (idCreator env)))
                     ''texts'' JUndefined))
         | JNull \<Rightarrow>
             Some (JObj (setProp (setProp (spread (codeUnits env) element) ''id'' (JStr (idCreator env)))
                     ''texts'' JUndefined))
         | JArr texts \<Rightarrow>
             if list_ex nullish texts then None
             else Some (JObj (setProp (setProp (spread (codeUnits env) element) ''id''
                                         (JStr (idCreator env)))
                          ''texts'' (JArr (map (convertArrowLineText env) texts))))
         | _ \<Rightarrow> None)
      else Some JUndefined)"

text \<open>
  The values of \<^verbatim>\<open>texts\<close> on which \<^verbatim>\<open>element.texts?.map(...)\<close> with that
  callback does not throw: \<^verbatim>\<open>undefined\<close>, \<^verbatim>\<open>null\<close>, or an array without a
  \<^verbatim>\<open>null\<close> or \<^verbatim>\<open>undefined\<close> entry. \<open>mapped_texts\<close> is what the expression
  evaluates to on them.
\<close>

fun mappable_texts :: "jsval \<Rightarrow> bool" where
  "mappable_texts JUndefined = True"
| "mappable_texts JNull = True"
| "mappable_texts (JArr texts) = (\<not> list_ex nullish texts)"
| "mappable_texts _ = False"

fun mapped_texts :: "environment \<Rightarrow> jsval \<Rightarrow> jsval" where
  "mapped_texts env (JArr texts) = JArr (map (convertArrowLineText env) texts)"
| "mapped_texts env _ = JUndefined"

text \<open>
  The part of the component's state that the functions below read or write:
  the children of the board behind \<^verbatim>\<open>boardRef.current\<close> (\<open>None\<close> while the
  reference is \<^verbatim>\<open>null\<close>), the React state \<^verbatim>\<open>elements\<close>, \<^verbatim>\<open>syncStatus\<close> and
  \<^verbatim>\<open>lastSyncTime\<close>.
\<close>

datatype SyncStatus = Idle | Syncing | Success | Error

record client =
  boardRef :: "jsval list option"
  elements :: "obj list"
  syncStatus :: SyncStatus
  lastSyncTime :: "string option"

text \<open>The fields of a \<^verbatim>\<open>WebSocketMessage\<close> that the handler reads.\<close>

record ws_message =
  ws_type :: string
  ws_element :: jsval
  ws_count :: jsval

text \<open>
  \<^verbatim>\<open>handleWebSocketMessage\<close> (lines 213--242). An exception inside the
  \<^verbatim>\<open>try\<close> is logged and leaves the state as it was; logging is not modelled.
\<close>

definition handleWebSocketMessage :: "environment \<Rightarrow> client \<Rightarrow> ws_message \<Rightarrow> client" where
  "handleWebSocketMessage env st data =
     (if ws_type data = ''element_created'' then
        (case convertPlaitElement env (ws_element data) of
           None \<Rightarrow> st
         | Some element \<Rightarrow>
             (case boardRef st of
                None \<Rightarrow> st
              | Some children \<Rightarrow>
                  st\<lparr>boardRef := Some (insertNode env children element [length children])\<rparr>))
      else if ws_type data = ''elements_synced'' then st
      else if ws_type data = ''sync_status'' then st
      else st)"








section \<open>Properties of a batch, and the batches of the examples\<close>

definition ids_of :: "obj list \<Rightarrow> jsval list" where
  "ids_of els = map (\<lambda>el. getProp el ''id'') els"

text \<open>The entries of an element's \<^verbatim>\<open>boundElements\<close>, none when it is not an array.\<close>

definition bound_entries :: "obj \<Rightarrow> jsval list" where
  "bound_entries el = (case getProp el ''boundElements'' of JArr bs \<Rightarrow> bs | _ \<Rightarrow> [])"

text \<open>
  Referential soundness of a batch: the \<^verbatim>\<open>id\<close> of every entry of every
  \<^verbatim>\<open>boundElements\<close>, and every \<^verbatim>\<open>containerId\<close> that is present (neither
  \<^verbatim>\<open>undefined\<close> nor \<^verbatim>\<open>null\<close>), is the \<^verbatim>\<open>id\<close> of an element of the batch.
\<close>

definition references_sound :: "obj list \<Rightarrow> bool" where
  "references_sound els =
     list_all (\<lambda>el.
        list_all (\<lambda>b. getMember b ''id'' \<in> set (ids_of els)) (bound_entries el)
        \<and> (if nullish (getProp el ''containerId'') then True
            else getProp el ''containerId'' \<in> set (ids_of els))) els"

text \<open>The same with \<^verbatim>\<open>containerId\<close> counted as present when it is truthy.\<close>

definition references_sound_truthy :: "obj list \<Rightarrow> bool" where
  "references_sound_truthy els =
     list_all (\<lambda>el.
        list_all (\<lambda>b. getMember b ''id'' \<in> set (ids_of els)) (bound_entries el)
        \<and> (if truthy (getProp el ''containerId'')
            then getProp el ''containerId'' \<in> set (ids_of els) else True)) els"

text \<open>
  A rectangle bound to a label, to a video and to an arrow that is not in the
  batch; the label; and a second label whose container is not in the batch.
\<close>

definition example_batch :: "obj list" where
  "example_batch =
     [[(''id'', JStr ''r1''), (''type'', JStr ''geometry''),
       (''boundElements'', JArr [JObj [(''id'', JStr ''t1''), (''type'', JStr ''text'')],
                                 JObj [(''id'', JStr ''t1''), (''type'', JStr ''video'')],
                                 JObj [(''id'', JStr ''zz''), (''type'', JStr ''arrow'')]])],
      [(''id'', JStr ''t1''), (''type'', JStr ''geometry''), (''containerId'', JStr ''r1'')],
      [(''id'', JStr ''t2''), (''type'', JStr ''geometry''), (''containerId'', JStr ''gone''),
       (''boundElements'', JArr [])]]"

definition example_batch_fixed :: "obj list" where
  "example_batch_fixed =
     [[(''id'', JStr ''r1''), (''type'', JStr ''geometry''),
       (''boundElements'', JArr [JObj [(''id'', JStr ''t1''), (''type'', JStr ''text'')]])],
      [(''id'', JStr ''t1''), (''type'', JStr ''geometry''), (''containerId'', JStr ''r1'')],
      [(''id'', JStr ''t2''), (''type'', JStr ''geometry''), (''containerId'', JNull),
       (''boundElements'', JNull)]]"

text \<open>
  The arrow \<^verbatim>\<open>a1\<close> of the scenario, alone in its batch after \<^verbatim>\<open>g1\<close> was
  deleted.
\<close>

definition stale_source :: jsval where
  "stale_source =
     JObj [(''boundId'', JStr ''g1''), (''connection'', JArr [JNum 1, JNum (1 / 2)]),
           (''marker'', JStr ''none'')]"

definition stale_arrow_batch :: "obj list" where
  "stale_arrow_batch =
     [[(''id'', JStr ''a1''), (''type'', JStr ''arrow-line''), (''shape'', JStr ''straight''),
       (''points'', JArr [JArr [JNum 10, JNum 5], JArr [JNum 50, JNum 5]]),
       (''source'', stale_source),
       (''target'', JObj [(''marker'', JStr ''arrow'')])]]"

text \<open>An element whose \<^verbatim>\<open>containerId\<close> is the empty string.\<close>

definition empty_container_batch :: "obj list" where
  "empty_container_batch = [[(''id'', JStr ''a''), (''containerId'', JStr [])]]"

text \<open>
  A rectangle bound to a label that is not in the batch and, by a
  \<^verbatim>\<open>"video"\<close> entry, to itself.
\<close>

definition unbound_batch :: "obj list" where
  "unbound_batch =
     [[(''id'', JStr ''r1''), (''type'', JStr ''geometry''),
       (''boundElements'', JArr [JObj [(''id'', JStr ''zz''), (''type'', JStr ''text'')],
                                 JObj [(''id'', JStr ''r1''), (''type'', JStr ''video'')]])]]"

section \<open>Requests, networks and client states of the examples\<close>

definition example_config :: config where
  "example_config = \<lparr>EXPRESS_SERVER_URL = ''http://localhost:3000'', ENABLE_CANVAS_SYNC = True\<rparr>"

definition offline_config :: config where
  "offline_config = \<lparr>EXPRESS_SERVER_URL = ''http://localhost:3000'', ENABLE_CANVAS_SYNC = False\<rparr>"

text \<open>The rectangle \<^verbatim>\<open>g1\<close> of the scenario, as the arguments of a tool call.\<close>

definition example_geometry :: jsval where
  "example_geometry =
     JObj [(''id'', JStr ''g1''), (''type'', JStr ''geometry''), (''shape'', JStr ''rectangle''),
           (''points'', JArr [JArr [JNum 0, JNum 0], JArr [JNum 10, JNum 10]]),
           (''text'', JStr ''A'')]"

text \<open>The same element as the repository would answer it, stamped.\<close>

definition stored_geometry :: jsval where
  "stored_geometry =
     JObj [(''id'', JStr ''g1''), (''type'', JStr ''geometry''), (''shape'', JStr ''rectangle''),
           (''points'', JArr [JArr [JNum 0, JNum 0], JArr [JNum 10, JNum 10]]),
           (''text'', JStr ''A''), (''version'', JNum 1)]"

text \<open>
  Three networks: one where \<^verbatim>\<open>fetch\<close> throws, one that answers 500, and one
  that answers 200 with the stored element.
\<close>

definition refusing_network :: network where
  "refusing_network request = FetchRejects ''connect ECONNREFUSED''"

definition failing_network :: network where
  "failing_network request = FetchResponse False 500 ''Internal Server Error'' None"

definition serving_network :: network where
  "serving_network request =
     FetchResponse True 200 ''OK''
       (Some (JObj [(''success'', JBool True), (''element'', stored_geometry)]))"

text \<open>
  The environment of the examples: the new id \<^verbatim>\<open>n1\<close>; a \<^verbatim>\<open>buildText\<close> that
  makes a paragraph holding the text, with its alignment; an \<^verbatim>\<open>insertNode\<close>
  that puts the node in at the index that a one-step path names; and the
  split of an ASCII string into its characters.
\<close>

definition plain_buildText :: "jsval \<Rightarrow> jsval \<Rightarrow> jsval" where
  "plain_buildText text align =
     JObj [(''children'', JArr [JObj [(''text'', text)]]), (''align'', align)]"

fun insertNode_at :: "jsval list \<Rightarrow> jsval \<Rightarrow> nat list \<Rightarrow> jsval list" where
  "insertNode_at children node [i] = take i children @ [node] @ drop i children"
| "insertNode_at children node _ = children"

definition example_environment :: environment where
  "example_environment =
     \<lparr>idCreator = ''n1'', buildText = plain_buildText, insertNode = insertNode_at,
      codeUnits = map (\<lambda>c. [c])\<rparr>"

text \<open>
  A rectangle bound to a \<^verbatim>\<open>"video"\<close> entry, the push message that announces
  it, and the node that \<^verbatim>\<open>convertPlaitElement\<close> makes of it.
\<close>

definition video_element :: jsval where
  "video_element =
     JObj [(''id'', JStr ''g1''), (''type'', JStr ''geometry''), (''text'', JStr ''A''),
           (''boundElements'', JArr [JObj [(''id'', JStr ''g1''), (''type'', JStr ''video'')]])]"

definition video_message :: ws_message where
  "video_message = \<lparr>ws_type = ''element_created'', ws_element = video_element, ws_count = JUndefined\<rparr>"

definition video_node :: obj where
  "video_node =
     [(''id'', JStr ''n1''), (''type'', JStr ''geometry''),
      (''text'', plain_buildText (JStr ''A'') (JStr ''center'')),
      (''boundElements'', JArr [JObj [(''id'', JStr ''g1''), (''type'', JStr ''video'')]])]"

text \<open>
  An arrow with one label and a container that does not exist, its message
  and its node; and the same arrow with a string where the list of labels
  should be.
\<close>

definition labelled_arrow :: jsval where
  "labelled_arrow =
     JObj [(''id'', JStr ''a1''), (''type'', JStr ''arrow-line''),
           (''texts'', JArr [JObj [(''text'', JStr ''yes''), (''position'', JNum (1 / 2))]]),
           (''containerId'', JStr ''gone'')]"

definition arrow_message :: ws_message where
  "arrow_message = \<lparr>ws_type = ''element_created'', ws_element = labelled_arrow, ws_count = JUndefined\<rparr>"

definition arrow_node :: obj where
  "arrow_node =
     [(''id'', JStr ''n1''), (''type'', JStr ''arrow-line''),
      (''texts'', JArr [JObj [(''text'', plain_buildText (JStr ''yes'') JUndefined),
                               (''position'', JNum (1 / 2))]]),
      (''containerId'', JStr ''gone'')]"

definition bad_arrow_message :: ws_message where
  "bad_arrow_message =
     \<lparr>ws_type = ''element_created'',
      ws_element = JObj [(''id'', JStr ''a2''), (''type'', JStr ''arrow-line''),
                         (''texts'', JStr ''label'')],
      ws_count = JUndefined\<rparr>"

definition synced_message :: ws_message where
  "synced_message = \<lparr>ws_type = ''elements_synced'', ws_element = JUndefined, ws_count = JNum 3\<rparr>"

definition status_message :: ws_message where
  "status_message = \<lparr>ws_type = ''sync_status'', ws_element = JUndefined, ws_count = JNum 3\<rparr>"

text \<open>The client before the toolkit has set the board, and once it has.\<close>

definition unmounted_client :: client where
  "unmounted_client = \<lparr>boardRef = None, elements = [], syncStatus = Idle, lastSyncTime = None\<rparr>"

definition initial_client :: client where
  "initial_client = \<lparr>boardRef = Some [], elements = [], syncStatus = Idle, lastSyncTime = None\<rparr>"




text \<open>
  A node that the Binding Validator would leave as it is, as it leaves
  everything it has repaired.
\<close>

definition validated_node :: "obj \<Rightarrow> bool" where
  "validated_node node = (validateAndFixBindings [node] = [node])"

section \<open>Objects and maps\<close>

lemma getProp_setProp: "getProp (setProp el k v) k' = (if k' = k then v else getProp el k')"
  by (simp add: getProp_def setProp_def update_conv')

lemma setProp_getProp_truthy:
  assumes "truthy (getProp el k)"
  shows "setProp el k (getProp el k) = el"
proof -
  from assms have "map_of el k = Some (getProp el k)"
    by (auto simp: getProp_def split: option.splits)
  then show ?thesis by (simp add: setProp_def update_triv)
qed

lemma sameValueZero_eq: "sameValueZero x y \<Longrightarrow> x = y"
  by (cases x) simp_all

lemma Map_get_None_iff:
  "Map_get es k = None \<longleftrightarrow> (\<forall>x\<in>set (map fst es). \<not> sameValueZero x k)"
proof -
  have "Map_get es k = None \<longleftrightarrow> filter (\<lambda>e. sameValueZero (fst e) k) es = []"
    by (simp add: Map_get_def split: list.splits)
  then show ?thesis by (simp add: filter_empty_conv)
qed

lemma Map_get_Some_key:
  assumes "Map_get es k \<noteq> None"
  shows "k \<in> set (map fst es)"
proof -
  from assms obtain x where "x \<in> set (map fst es)" "sameValueZero x k"
    unfolding Map_get_None_iff by blast
  then show ?thesis using sameValueZero_eq by blast
qed

lemma Map_get_same_keys:
  "map fst es = map fst es' \<Longrightarrow> (Map_get es k = None) = (Map_get es' k = None)"
  by (simp only: Map_get_None_iff)

section \<open>The validator reads the batch only through its ids\<close>

lemma binding_ok_same_keys:
  "map fst es = map fst es' \<Longrightarrow> binding_ok es = binding_ok es'"
  by (rule ext) (simp add: binding_ok_def Map_get_same_keys[of es es'])

lemma fixBoundElements_same_keys:
  assumes "map fst es = map fst es'"
  shows "fixBoundElements es = fixBoundElements es'"
proof -
  from assms have eq: "binding_ok es = binding_ok es'" by (rule binding_ok_same_keys)
  show ?thesis unfolding fixBoundElements_def eq ..
qed

lemma fixContainerId_if:
  "fixContainerId es el =
     (if truthy (getProp el ''containerId'') \<and> Map_get es (getProp el ''containerId'') = None
      then setProp el ''containerId'' JNull else el)"
  by (auto simp: fixContainerId_def split: option.splits)

lemma fixContainerId_same_keys:
  "map fst es = map fst es' \<Longrightarrow> fixContainerId es = fixContainerId es'"
  by (rule ext) (simp add: fixContainerId_if Map_get_same_keys[of es es'])

lemma fixElement_same_keys:
  "map fst es = map fst es' \<Longrightarrow> fixElement es = fixElement es'"
  by (rule ext)
     (simp add: fixElement_def fixContainerId_same_keys[of es es']
        fixBoundElements_same_keys[of es es'])

section \<open>What one repair changes\<close>

lemma getProp_fixBoundElements:
  "k \<noteq> ''boundElements'' \<Longrightarrow> getProp (fixBoundElements es el) k = getProp el k"
  by (simp add: fixBoundElements_def getProp_setProp Let_def split: jsval.splits)

lemma getProp_fixContainerId:
  "k \<noteq> ''containerId'' \<Longrightarrow> getProp (fixContainerId es el) k = getProp el k"
  by (simp add: fixContainerId_if getProp_setProp)

lemma getProp_fixElement:
  "k \<noteq> ''boundElements'' \<Longrightarrow> k \<noteq> ''containerId'' \<Longrightarrow>
   getProp (fixElement es el) k = getProp el k"
  by (simp add: fixElement_def getProp_fixBoundElements getProp_fixContainerId)

lemma boundElements_fixElement:
  "getProp (fixElement es el) ''boundElements'' = getProp (fixBoundElements es el) ''boundElements''"
  by (simp add: fixElement_def getProp_fixContainerId)

lemma ids_of_fixed: "ids_of (map (fixElement es) B) = ids_of B"
  by (simp add: ids_of_def getProp_fixElement)

lemma keys_of_fixed:
  "map fst (elementMap_of (map (fixElement es) B)) = map fst (elementMap_of B)"
  by (simp add: elementMap_of_def getProp_fixElement comp_def)

lemma keys_elementMap: "map fst (elementMap_of B) = ids_of B"
  by (simp add: elementMap_of_def ids_of_def comp_def)

text \<open>
  After its repair \<^verbatim>\<open>boundElements\<close> is falsy, or a non-empty array of the
  entries of the input that pass the filter.
\<close>

lemma boundElements_after_fix:
  "\<not> truthy (getProp (fixBoundElements es el) ''boundElements'') \<or>
   (\<exists>bs0. getProp el ''boundElements'' = JArr bs0 \<and> filter (binding_ok es) bs0 \<noteq> [] \<and>
      getProp (fixBoundElements es el) ''boundElements'' = JArr (filter (binding_ok es) bs0))"
  by (cases "getProp el ''boundElements''")
     (auto simp: fixBoundElements_def getProp_setProp Let_def)

lemma fixBoundElements_stable:
  assumes "\<not> truthy (getProp x ''boundElements'') \<or>
     (\<exists>bs. getProp x ''boundElements'' = JArr bs \<and> bs \<noteq> [] \<and> (\<forall>b\<in>set bs. binding_ok es b))"
  shows "fixBoundElements es x = x"
  using assms
proof
  assume "\<not> truthy (getProp x ''boundElements'')"
  then show ?thesis by (simp add: fixBoundElements_def)
next
  assume "\<exists>bs. getProp x ''boundElements'' = JArr bs \<and> bs \<noteq> [] \<and> (\<forall>b\<in>set bs. binding_ok es b)"
  then obtain bs where bs: "getProp x ''boundElements'' = JArr bs" "bs \<noteq> []"
    "\<forall>b\<in>set bs. binding_ok es b" by blast
  then have "filter (binding_ok es) bs = bs" by simp
  moreover have "setProp x ''boundElements'' (JArr bs) = x"
    using setProp_getProp_truthy[of x "''boundElements''"] bs(1) by simp
  ultimately show ?thesis using bs by (simp add: fixBoundElements_def)
qed

lemma fixContainerId_twice: "fixContainerId es (fixContainerId es el) = fixContainerId es el"
  by (simp add: fixContainerId_if getProp_setProp)

lemma fixElement_twice: "fixElement es (fixElement es el) = fixElement es el"
proof -
  let ?y = "fixBoundElements es el"
  let ?z = "fixContainerId es ?y"
  have "getProp ?z ''boundElements'' = getProp ?y ''boundElements''"
    by (simp add: getProp_fixContainerId)
  then have "fixBoundElements es ?z = ?z"
    using boundElements_after_fix[of es el] by (intro fixBoundElements_stable) auto
  then show ?thesis by (simp add: fixElement_def fixContainerId_twice)
qed

lemma example_batch_run: "validateAndFixBindings example_batch = example_batch_fixed"
  by (simp add: validateAndFixBindings_def example_batch_def example_batch_fixed_def
      elementMap_of_def fixElement_def fixBoundElements_def fixContainerId_def binding_ok_def
      Map_get_def array_includes_def getProp_def setProp_def)

section \<open>The Binding Validator: the claims\<close>

text \<open>
  C2. Idempotence of repair: for every batch \<open>B\<close>, running the Binding Validator
  on its own output gives that output again, \<open>fix (fix B) = fix B\<close>.
\<close>

theorem validateAndFixBindings_idempotent:
  "validateAndFixBindings (validateAndFixBindings B) = validateAndFixBindings B"
proof -
  let ?M = "elementMap_of B"
  let ?M' = "elementMap_of (map (fixElement ?M) B)"
  have "map fst ?M' = map fst ?M" by (rule keys_of_fixed)
  then have "fixElement ?M' = fixElement ?M" by (rule fixElement_same_keys)
  then show ?thesis by (simp add: validateAndFixBindings_def fixElement_twice)
qed

text \<open>
  The batch of the example is repaired to \<open>example_batch_fixed\<close>, and a second
  run leaves that as it is.
\<close>

theorem validateAndFixBindings_idempotent_witness:
  "validateAndFixBindings example_batch = example_batch_fixed \<and>
   validateAndFixBindings example_batch_fixed = example_batch_fixed"
  using validateAndFixBindings_idempotent [of example_batch]
  by (simp add: example_batch_run)

lemma nth_validateAndFixBindings:
  "i < length B \<Longrightarrow> validateAndFixBindings B ! i = fixElement (elementMap_of B) (B ! i)"
  by (simp add: validateAndFixBindings_def)

lemma ids_of_validateAndFixBindings: "ids_of (validateAndFixBindings B) = ids_of B"
  by (simp add: validateAndFixBindings_def ids_of_fixed)

lemma binding_ok_id:
  assumes "binding_ok (elementMap_of B) b"
  shows "getMember b ''id'' \<in> set (ids_of B)"
proof -
  from assms have "Map_get (elementMap_of B) (getMember b ''id'') \<noteq> None"
    by (simp add: binding_ok_def split: if_splits)
  then have "getMember b ''id'' \<in> set (map fst (elementMap_of B))"
    by (rule Map_get_Some_key)
  then show ?thesis by (simp only: keys_elementMap)
qed

lemma binding_ok_type:
  "binding_ok es b \<Longrightarrow> getMember b ''type'' = JStr ''text'' \<or> getMember b ''type'' = JStr ''arrow''"
  by (auto simp: binding_ok_def array_includes_def split: if_splits dest: sameValueZero_eq)

lemma bound_entries_fixElement:
  "set (bound_entries (fixElement es el)) \<subseteq> {b \<in> set (bound_entries el). binding_ok es b}"
  using boundElements_after_fix[of es el]
  by (cases "getProp (fixBoundElements es el) ''boundElements''")
     (auto simp: bound_entries_def boundElements_fixElement)

lemma containerId_fixElement:
  "getProp (fixElement es el) ''containerId'' =
     (if truthy (getProp el ''containerId'') \<and> Map_get es (getProp el ''containerId'') = None
      then JNull else getProp el ''containerId'')"
  by (simp add: fixElement_def fixContainerId_if getProp_setProp getProp_fixBoundElements Let_def)

text \<open>
  C3, as amended. For every batch \<open>B\<close> and its repaired batch \<open>O\<close>: the \<^verbatim>\<open>id\<close> of
  every entry that remains in a \<^verbatim>\<open>boundElements\<close> list of \<open>O\<close>, and every truthy
  \<^verbatim>\<open>containerId\<close> of \<open>O\<close>, is the \<^verbatim>\<open>id\<close> of an element of \<open>O\<close>; a truthy
  \<^verbatim>\<open>containerId\<close> that names no element of the batch is set to \<^verbatim>\<open>null\<close>. A falsy
  \<^verbatim>\<open>containerId\<close> such as the empty string is not examined: the output has the
  value of the input.
\<close>

theorem validateAndFixBindings_references_sound:
  "references_sound_truthy (validateAndFixBindings B) \<and>
   (\<forall>i < length B. truthy (getProp (B ! i) ''containerId'') \<and>
        getProp (B ! i) ''containerId'' \<notin> set (ids_of B) \<longrightarrow>
      getProp (validateAndFixBindings B ! i) ''containerId'' = JNull) \<and>
   (\<forall>i < length B. \<not> truthy (getProp (B ! i) ''containerId'') \<longrightarrow>
      getProp (validateAndFixBindings B ! i) ''containerId'' = getProp (B ! i) ''containerId'')"
proof (intro conjI)
  let ?M = "elementMap_of B"
  have "list_all (\<lambda>b. getMember b ''id'' \<in> set (ids_of B)) (bound_entries (fixElement ?M el))
        \<and> (truthy (getProp (fixElement ?M el) ''containerId'') \<longrightarrow>
             getProp (fixElement ?M el) ''containerId'' \<in> set (ids_of B))" for el
  proof
    show "list_all (\<lambda>b. getMember b ''id'' \<in> set (ids_of B)) (bound_entries (fixElement ?M el))"
      using bound_entries_fixElement[of ?M el] binding_ok_id[of B]
      by (auto simp: list_all_iff)
    show "truthy (getProp (fixElement ?M el) ''containerId'') \<longrightarrow>
          getProp (fixElement ?M el) ''containerId'' \<in> set (ids_of B)"
      using Map_get_Some_key[of ?M "getProp el ''containerId''"]
      by (auto simp: containerId_fixElement keys_elementMap split: if_splits)
  qed
  then show "references_sound_truthy (validateAndFixBindings B)"
    unfolding references_sound_truthy_def ids_of_validateAndFixBindings
    by (simp add: validateAndFixBindings_def list_all_iff)
  show "\<forall>i < length B. truthy (getProp (B ! i) ''containerId'') \<and>
        getProp (B ! i) ''containerId'' \<notin> set (ids_of B) \<longrightarrow>
      getProp (validateAndFixBindings B ! i) ''containerId'' = JNull"
  proof (intro allI impI)
    fix i assume i: "i < length B"
      and c: "truthy (getProp (B ! i) ''containerId'') \<and>
              getProp (B ! i) ''containerId'' \<notin> set (ids_of B)"
    have "Map_get ?M (getProp (B ! i) ''containerId'') = None"
    proof (rule ccontr)
      assume "Map_get ?M (getProp (B ! i) ''containerId'') \<noteq> None"
      then have "getProp (B ! i) ''containerId'' \<in> set (map fst ?M)"
        by (rule Map_get_Some_key)
      then show False using c by (simp add: keys_elementMap)
    qed
    with i c show "getProp (validateAndFixBindings B ! i) ''containerId'' = JNull"
      by (simp add: nth_validateAndFixBindings containerId_fixElement)
  qed
  show "\<forall>i < length B. \<not> truthy (getProp (B ! i) ''containerId'') \<longrightarrow>
      getProp (validateAndFixBindings B ! i) ''containerId'' = getProp (B ! i) ''containerId''"
    by (simp add: nth_validateAndFixBindings containerId_fixElement)
qed

text \<open>
  In the batch of the example the third element's \<^verbatim>\<open>containerId\<close> names no
  element and is set to \<^verbatim>\<open>null\<close>, and the repaired batch is sound. In the
  batch whose element has the empty string as \<^verbatim>\<open>containerId\<close>, the output has
  the empty string.
\<close>

theorem validateAndFixBindings_references_sound_witness:
  "references_sound_truthy example_batch_fixed \<and>
   (2::nat) < length example_batch \<and>
   truthy (getProp (example_batch ! 2) ''containerId'') \<and>
   getProp (example_batch ! 2) ''containerId'' \<notin> set (ids_of example_batch) \<and>
   getProp (example_batch_fixed ! 2) ''containerId'' = JNull \<and>
   (0::nat) < length empty_container_batch \<and>
   \<not> truthy (getProp (empty_container_batch ! 0) ''containerId'') \<and>
   getProp (validateAndFixBindings empty_container_batch ! 0) ''containerId'' = JStr []"
proof -
  have len: "(2::nat) < length example_batch" by (simp add: example_batch_def)
  have c: "truthy (getProp (example_batch ! 2) ''containerId'') \<and>
        getProp (example_batch ! 2) ''containerId'' \<notin> set (ids_of example_batch)"
    by (simp add: example_batch_def getProp_def ids_of_def)
  from validateAndFixBindings_references_sound [of example_batch] len c
  have 1: "references_sound_truthy example_batch_fixed"
    and 2: "getProp (example_batch_fixed ! 2) ''containerId'' = JNull"
    unfolding example_batch_run by blast+
  have len0: "(0::nat) < length empty_container_batch" by (simp add: empty_container_batch_def)
  have v: "getProp (empty_container_batch ! 0) ''containerId'' = JStr []"
    by (simp add: empty_container_batch_def getProp_def)
  then have f: "\<not> truthy (getProp (empty_container_batch ! 0) ''containerId'')" by simp
  from validateAndFixBindings_references_sound [of empty_container_batch] len0 f
  have "getProp (validateAndFixBindings empty_container_batch ! 0) ''containerId''
      = getProp (empty_container_batch ! 0) ''containerId''" by blast
  then have 3: "getProp (validateAndFixBindings empty_container_batch ! 0) ''containerId'' = JStr []"
    unfolding v .
  from 1 len c 2 len0 f 3 show ?thesis by blast
qed

text \<open>
  C3 as stated fails: in the batch whose one element \<^verbatim>\<open>a\<close> has the empty string
  as \<^verbatim>\<open>containerId\<close>, the validator changes nothing, so the output keeps a
  \<^verbatim>\<open>containerId\<close> that is present and is the \<^verbatim>\<open>id\<close> of no element of the output.
\<close>

theorem references_sound_counterexample:
  "\<not> references_sound (validateAndFixBindings empty_container_batch)"
  by (simp add: references_sound_def validateAndFixBindings_def empty_container_batch_def
      elementMap_of_def fixElement_def fixBoundElements_def fixContainerId_def
      getProp_def ids_of_def bound_entries_def)

text \<open>
  C4. An element of the input whose \<^verbatim>\<open>boundElements\<close> is an array that the
  filter leaves empty has, in the output, \<^verbatim>\<open>boundElements\<close> set to \<^verbatim>\<open>null\<close> (the
  value the code uses for an absent list), not to the empty array.
\<close>

theorem validateAndFixBindings_empty_normalized:
  assumes "i < length B"
    and "getProp (B ! i) ''boundElements'' = JArr bs"
    and "filter (binding_ok (elementMap_of B)) bs = []"
  shows "getProp (validateAndFixBindings B ! i) ''boundElements'' = JNull"
  using assms
  by (simp add: nth_validateAndFixBindings boundElements_fixElement fixBoundElements_def
      getProp_setProp)

text \<open>
  The rectangle of \<open>unbound_batch\<close> has two entries. The filter drops the first
  because no element has its \<^verbatim>\<open>id\<close> and the second because of its \<^verbatim>\<open>type\<close>,
  and \<^verbatim>\<open>boundElements\<close> comes out as \<^verbatim>\<open>null\<close>.
\<close>

theorem validateAndFixBindings_empty_normalized_witness:
  "(0::nat) < length unbound_batch \<and>
   getProp (unbound_batch ! 0) ''boundElements'' =
     JArr [JObj [(''id'', JStr ''zz''), (''type'', JStr ''text'')],
           JObj [(''id'', JStr ''r1''), (''type'', JStr ''video'')]] \<and>
   filter (binding_ok (elementMap_of unbound_batch))
     [JObj [(''id'', JStr ''zz''), (''type'', JStr ''text'')],
      JObj [(''id'', JStr ''r1''), (''type'', JStr ''video'')]] = [] \<and>
   getProp (validateAndFixBindings unbound_batch ! 0) ''boundElements'' = JNull"
proof -
  have len: "(0::nat) < length unbound_batch" by (simp add: unbound_batch_def)
  have b: "getProp (unbound_batch ! 0) ''boundElements'' =
     JArr [JObj [(''id'', JStr ''zz''), (''type'', JStr ''text'')],
           JObj [(''id'', JStr ''r1''), (''type'', JStr ''video'')]]"
    by (simp add: unbound_batch_def getProp_def)
  have f: "filter (binding_ok (elementMap_of unbound_batch))
     [JObj [(''id'', JStr ''zz''), (''type'', JStr ''text'')],
      JObj [(''id'', JStr ''r1''), (''type'', JStr ''video'')]] = []"
    by (simp add: unbound_batch_def elementMap_of_def binding_ok_def Map_get_def
        array_includes_def getProp_def)
  from validateAndFixBindings_empty_normalized [OF len b f] len b f
  show ?thesis by blast
qed

text \<open>
  C5. An entry of an element's \<^verbatim>\<open>boundElements\<close> whose \<^verbatim>\<open>type\<close> is neither
  \<^verbatim>\<open>"text"\<close> nor \<^verbatim>\<open>"arrow"\<close> is not among the entries of that element in the output,
  whatever its \<^verbatim>\<open>id\<close>.
\<close>

theorem validateAndFixBindings_type_filtering:
  assumes "i < length B"
    and "b \<in> set (bound_entries (B ! i))"
    and "getMember b ''type'' \<noteq> JStr ''text''"
    and "getMember b ''type'' \<noteq> JStr ''arrow''"
  shows "b \<notin> set (bound_entries (validateAndFixBindings B ! i))"
proof
  assume "b \<in> set (bound_entries (validateAndFixBindings B ! i))"
  then have "binding_ok (elementMap_of B) b"
    using assms(1) bound_entries_fixElement[of "elementMap_of B" "B ! i"]
    by (auto simp: nth_validateAndFixBindings)
  then show False using binding_ok_type assms(3,4) by blast
qed

text \<open>
  The rectangle of the example is bound to a \<^verbatim>\<open>"video"\<close> entry whose \<^verbatim>\<open>id\<close> is
  that of the label in the batch; the entry is dropped all the same.
\<close>

theorem validateAndFixBindings_type_filtering_witness:
  "(0::nat) < length example_batch \<and>
   JObj [(''id'', JStr ''t1''), (''type'', JStr ''video'')] \<in> set (bound_entries (example_batch ! 0)) \<and>
   JStr ''t1'' \<in> set (ids_of example_batch) \<and>
   JObj [(''id'', JStr ''t1''), (''type'', JStr ''video'')]
     \<notin> set (bound_entries (example_batch_fixed ! 0))"
proof -
  let ?b = "JObj [(''id'', JStr ''t1''), (''type'', JStr ''video'')]"
  have len: "(0::nat) < length example_batch" by (simp add: example_batch_def)
  have b: "?b \<in> set (bound_entries (example_batch ! 0))"
    by (simp add: example_batch_def bound_entries_def getProp_def)
  have t1: "getMember ?b ''type'' \<noteq> JStr ''text''" by (simp add: getProp_def)
  have t2: "getMember ?b ''type'' \<noteq> JStr ''arrow''" by (simp add: getProp_def)
  have i: "JStr ''t1'' \<in> set (ids_of example_batch)"
    by (simp add: example_batch_def ids_of_def getProp_def)
  from validateAndFixBindings_type_filtering [OF len b t1 t2] len b i
  show ?thesis unfolding example_batch_run by simp
qed

text \<open>
  C6. The validator changes no property other than the top-level
  \<^verbatim>\<open>boundElements\<close> and \<^verbatim>\<open>containerId\<close>: every other property of every element,
  the \<^verbatim>\<open>source\<close> and \<^verbatim>\<open>target\<close> descriptors of an arrow with their \<^verbatim>\<open>boundId\<close>
  among them, has in the output the value it has in the input, whether or not
  the element it names is in the batch.
\<close>

theorem validateAndFixBindings_frame:
  assumes "k \<noteq> ''boundElements''" and "k \<noteq> ''containerId''"
  shows "map (\<lambda>el. getProp el k) (validateAndFixBindings B) = map (\<lambda>el. getProp el k) B"
  using assms by (simp add: validateAndFixBindings_def getProp_fixElement)

text \<open>
  The arrow of the scenario keeps its \<^verbatim>\<open>source\<close>, with the \<^verbatim>\<open>boundId\<close> of the
  deleted \<^verbatim>\<open>g1\<close>.
\<close>

theorem validateAndFixBindings_frame_witness:
  "''source'' \<noteq> ''boundElements'' \<and> ''source'' \<noteq> ''containerId'' \<and>
   JStr ''g1'' \<notin> set (ids_of stale_arrow_batch) \<and>
   map (\<lambda>el. getProp el ''source'') (validateAndFixBindings stale_arrow_batch) = [stale_source] \<and>
   getMember stale_source ''boundId'' = JStr ''g1''"
proof -
  have k1: "''source'' \<noteq> ''boundElements''" by simp
  have k2: "''source'' \<noteq> ''containerId''" by simp
  have s: "map (\<lambda>el. getProp el ''source'') stale_arrow_batch = [stale_source]"
    by (simp add: stale_arrow_batch_def getProp_def)
  have g: "JStr ''g1'' \<notin> set (ids_of stale_arrow_batch)"
    by (simp add: stale_arrow_batch_def ids_of_def getProp_def)
  have b: "getMember stale_source ''boundId'' = JStr ''g1''"
    by (simp add: stale_source_def getProp_def)
  from validateAndFixBindings_frame [OF k1 k2, of stale_arrow_batch] s g b
  show ?thesis by simp
qed

section \<open>The Tool Bridge: the claims\<close>

lemma syncToCanvas_disabled:
  "\<not> ENABLE_CANVAS_SYNC cfg \<Longrightarrow> syncToCanvas cfg fetch operation data = (JNull, [])"
  by (simp add: syncToCanvas_def)

lemma syncToCanvas_unreachable:
  "ENABLE_CANVAS_SYNC cfg \<Longrightarrow> unreachable fetch (create_request cfg data) \<Longrightarrow>
   syncToCanvas cfg fetch ''create'' data = (JNull, [create_request cfg data])"
  by (simp add: syncToCanvas_def unreachable_def Let_def split: fetch_outcome.splits)

lemma createElementOnCanvas_fallback:
  "fst (syncToCanvas cfg fetch ''create'' data) = JNull \<Longrightarrow>
   createElementOnCanvas cfg fetch data = (data, snd (syncToCanvas cfg fetch ''create'' data))"
  by (cases "syncToCanvas cfg fetch ''create'' data")
     (simp add: createElementOnCanvas_def optMember_def js_or_def)

lemma truthy_js_or: "truthy b \<Longrightarrow> truthy (js_or a b)"
  by (simp add: js_or_def)

lemma truthy_createElementOnCanvas:
  "truthy data \<Longrightarrow> truthy (fst (createElementOnCanvas cfg fetch data))"
  by (simp add: createElementOnCanvas_def truthy_js_or split: prod.splits)

lemma truthy_id_object: "truthy (getMember v k) \<Longrightarrow> truthy v \<and> \<not> nullish v"
  by (cases v) simp_all

lemma well_formed_checks:
  assumes "well_formed_request name args"
  shows "handleToolCall_try cfg fetch name args =
     (let (canvasElement, calls) = createElementOnCanvas cfg fetch args in
      if \<not> truthy canvasElement then (Inl HttpServerUnavailable, calls)
      else (Inr canvasElement, calls))"
proof -
  from assms have n: "\<not> nullish args" and i: "truthy (getMember args ''id'')"
    using truthy_id_object[of args "''id''"] by (simp_all add: well_formed_request_def)
  from assms have c: "name = ''create_geometry_element'' \<or> name = ''create_arrow_line_element''
      \<or> name = ''create_freehand_element''"
    by (simp add: well_formed_request_def creation_tool_def)
  from assms have t: "getMember args ''type'' = JStr (expected_type name)"
    by (simp add: well_formed_request_def)
  from c show ?thesis
    using n i t by (auto simp: handleToolCall_try_def expected_type_def)
qed

lemma well_formed_success:
  assumes "well_formed_request name args"
    and "createElementOnCanvas cfg fetch args = (args, calls)"
  shows "handleToolCall cfg fetch name args = (success_result args, calls)"
proof -
  from assms(1) have "truthy args"
    using truthy_id_object[of args "''id''"] by (simp add: well_formed_request_def)
  then show ?thesis
    by (simp add: handleToolCall_def well_formed_checks[OF assms(1)] assms(2) success_result_def)
qed

text \<open>
  C1, as amended. For every well-formed creation request: with the sync flag
  off the tool call returns the success payload holding the submitted element
  and makes no network call; with the flag on and the repository unreachable
  (\<^verbatim>\<open>fetch\<close> throws, or the status is not ok) the same request returns the same
  success payload holding the submitted element, not a failure, after the one
  call that was attempted.
\<close>

theorem bridge_degradation:
  assumes "well_formed_request name args"
  shows "(\<not> ENABLE_CANVAS_SYNC cfg \<longrightarrow>
            handleToolCall cfg fetch name args = (success_result args, [])) \<and>
         (ENABLE_CANVAS_SYNC cfg \<and> unreachable fetch (create_request cfg args) \<longrightarrow>
            handleToolCall cfg fetch name args = (success_result args, [create_request cfg args]))"
proof (intro conjI impI)
  assume off: "\<not> ENABLE_CANVAS_SYNC cfg"
  then have "createElementOnCanvas cfg fetch args = (args, [])"
    using createElementOnCanvas_fallback[of cfg fetch args]
    by (simp add: syncToCanvas_disabled)
  then show "handleToolCall cfg fetch name args = (success_result args, [])"
    by (rule well_formed_success[OF assms])
next
  assume "ENABLE_CANVAS_SYNC cfg \<and> unreachable fetch (create_request cfg args)"
  then have "createElementOnCanvas cfg fetch args = (args, [create_request cfg args])"
    using createElementOnCanvas_fallback[of cfg fetch args]
    by (simp add: syncToCanvas_unreachable)
  then show "handleToolCall cfg fetch name args = (success_result args, [create_request cfg args])"
    by (rule well_formed_success[OF assms])
qed

lemma example_geometry_well_formed:
  "well_formed_request ''create_geometry_element'' example_geometry"
  by (simp add: well_formed_request_def creation_tool_def expected_type_def
      example_geometry_def getProp_def)

text \<open>
  The rectangle of the scenario, created with the flag off, then with the flag
  on against a network that refuses the connection and one that answers 500.
\<close>

theorem bridge_degradation_witness:
  "well_formed_request ''create_geometry_element'' example_geometry \<and>
   \<not> ENABLE_CANVAS_SYNC offline_config \<and>
   handleToolCall offline_config refusing_network ''create_geometry_element'' example_geometry
     = (success_result example_geometry, []) \<and>
   ENABLE_CANVAS_SYNC example_config \<and>
   unreachable refusing_network (create_request example_config example_geometry) \<and>
   handleToolCall example_config refusing_network ''create_geometry_element'' example_geometry
     = (success_result example_geometry, [create_request example_config example_geometry]) \<and>
   unreachable failing_network (create_request example_config example_geometry) \<and>
   handleToolCall example_config failing_network ''create_geometry_element'' example_geometry
     = (success_result example_geometry, [create_request example_config example_geometry])"
proof -
  note w = example_geometry_well_formed
  have off: "\<not> ENABLE_CANVAS_SYNC offline_config" by (simp add: offline_config_def)
  have on: "ENABLE_CANVAS_SYNC example_config" by (simp add: example_config_def)
  have u1: "unreachable refusing_network (create_request example_config example_geometry)"
    by (simp add: unreachable_def refusing_network_def)
  have u2: "unreachable failing_network (create_request example_config example_geometry)"
    by (simp add: unreachable_def failing_network_def)
  from bridge_degradation [OF w, of offline_config refusing_network]
       bridge_degradation [OF w, of example_config refusing_network]
       bridge_degradation [OF w, of example_config failing_network]
       w off on u1 u2
  show ?thesis by simp
qed

text \<open>
  C1 as stated fails in its second half: with the flag on and a network that
  refuses the connection, the well-formed request for the rectangle is
  answered without \<^verbatim>\<open>isError\<close>.
\<close>

theorem bridge_degradation_counterexample:
  "well_formed_request ''create_geometry_element'' example_geometry \<and>
   ENABLE_CANVAS_SYNC example_config \<and>
   unreachable refusing_network (create_request example_config example_geometry) \<and>
   \<not> isError (fst (handleToolCall example_config refusing_network
                      ''create_geometry_element'' example_geometry))"
  by (simp add: well_formed_request_def creation_tool_def expected_type_def
      example_geometry_def getProp_def example_config_def unreachable_def refusing_network_def
      handleToolCall_def handleToolCall_try_def createElementOnCanvas_def syncToCanvas_def
      create_request_def optMember_def js_or_def success_result_def Let_def)

lemma handleToolCall_error:
  "handleToolCall_try cfg fetch name args = (Inl e, calls) \<Longrightarrow>
   handleToolCall cfg fetch name args =
     (\<lparr>content_text = [Lit (''Error: '' @ error_message e)], isError = True\<rparr>, calls)"
  by (simp add: handleToolCall_def)

lemma type_mismatch_try:
  assumes "creation_tool name" and "getMember args ''type'' \<noteq> JStr (expected_type name)"
  shows "handleToolCall_try cfg fetch name args =
     (if nullish args then (Inl (ArgsTypeError (if args = JNull then ''null'' else ''undefined'')), [])
      else if \<not> truthy (getMember args ''id'') then (Inl IdRequired, [])
      else if name = ''create_arrow_line_element'' then (Inl TypeMustBeArrowLine, [])
      else if name = ''create_freehand_element'' then (Inl TypeMustBeFreehand, [])
      else (Inl TypeMustBeGeometry, []))"
proof -
  from assms(1) consider "name = ''create_geometry_element''" | "name = ''create_arrow_line_element''"
    | "name = ''create_freehand_element''" by (auto simp: creation_tool_def)
  then show ?thesis
  proof cases
    case 1
    with assms(2) show ?thesis by (simp add: handleToolCall_try_def expected_type_def)
  next
    case 2
    with assms(2) show ?thesis by (simp add: handleToolCall_try_def expected_type_def)
  next
    case 3
    with assms(2) show ?thesis by (simp add: handleToolCall_try_def expected_type_def)
  qed
qed

text \<open>
  C7. A call of a creation tool whose \<^verbatim>\<open>type\<close> is not the one of the tool
  invoked is answered with \<^verbatim>\<open>isError\<close> and a message, and no network call is
  made; when the arguments carry an \<^verbatim>\<open>id\<close> the message is
  \<^verbatim>\<open>"Error: Failed to create element: type must be ..."\<close> with the expected
  type. A call that names any other tool is answered with
  \<^verbatim>\<open>"Error: Unknown tool: ..."\<close>, again without a network call. An operation
  other than \<^verbatim>\<open>"create"\<close> handed to \<^verbatim>\<open>syncToCanvas\<close> makes no network call
  either.
\<close>

theorem mismatch_and_unknown_rejected:
  "(creation_tool name \<and> getMember args ''type'' \<noteq> JStr (expected_type name) \<longrightarrow>
      isError (fst (handleToolCall cfg fetch name args)) \<and>
      snd (handleToolCall cfg fetch name args) = [] \<and>
      (truthy (getMember args ''id'') \<longrightarrow>
         content_text (fst (handleToolCall cfg fetch name args)) =
           [Lit (''Error: Failed to create element: type must be '' @ expected_type name)])) \<and>
   (\<not> creation_tool name \<longrightarrow>
      handleToolCall cfg fetch name args =
        (\<lparr>content_text = [Lit (''Error: Unknown tool: '' @ name)], isError = True\<rparr>, [])) \<and>
   (operation \<noteq> ''create'' \<longrightarrow> snd (syncToCanvas cfg fetch operation data) = [])"
proof (intro conjI impI)
  assume a: "creation_tool name \<and> getMember args ''type'' \<noteq> JStr (expected_type name)"
  then have "\<exists>e. handleToolCall_try cfg fetch name args = (Inl e, [])"
    by (simp add: type_mismatch_try)
  then obtain e where e: "handleToolCall_try cfg fetch name args = (Inl e, [])" ..
  from handleToolCall_error[OF e]
  show "isError (fst (handleToolCall cfg fetch name args))"
    and "snd (handleToolCall cfg fetch name args) = []" by simp_all
  assume i: "truthy (getMember args ''id'')"
  then have n: "\<not> nullish args" using truthy_id_object by blast
  from a i n have "handleToolCall_try cfg fetch name args =
      (if name = ''create_arrow_line_element'' then (Inl TypeMustBeArrowLine, [])
       else if name = ''create_freehand_element'' then (Inl TypeMustBeFreehand, [])
       else (Inl TypeMustBeGeometry, []))"
    by (simp add: type_mismatch_try)
  then show "content_text (fst (handleToolCall cfg fetch name args)) =
           [Lit (''Error: Failed to create element: type must be '' @ expected_type name)]"
    by (simp add: handleToolCall_def expected_type_def)
next
  assume "\<not> creation_tool name"
  then have "handleToolCall_try cfg fetch name args = (Inl (UnknownTool name), [])"
    by (simp add: handleToolCall_try_def creation_tool_def)
  from handleToolCall_error[OF this]
  show "handleToolCall cfg fetch name args =
        (\<lparr>content_text = [Lit (''Error: Unknown tool: '' @ name)], isError = True\<rparr>, [])"
    by simp
next
  assume "operation \<noteq> ''create''"
  then show "snd (syncToCanvas cfg fetch operation data) = []"
    by (simp add: syncToCanvas_def)
qed

text \<open>
  The rectangle of the scenario sent to the arrow tool, a call of a tool that
  does not exist, and a sync operation that does not exist, all with the flag
  on and a network that would answer.
\<close>

theorem mismatch_and_unknown_rejected_witness:
  "creation_tool ''create_arrow_line_element'' \<and>
   getMember example_geometry ''type'' \<noteq> JStr (expected_type ''create_arrow_line_element'') \<and>
   truthy (getMember example_geometry ''id'') \<and>
   handleToolCall example_config serving_network ''create_arrow_line_element'' example_geometry =
     (\<lparr>content_text = [Lit ''Error: Failed to create element: type must be arrow-line''],
       isError = True\<rparr>, []) \<and>
   \<not> creation_tool ''delete_element'' \<and>
   handleToolCall example_config serving_network ''delete_element'' example_geometry =
     (\<lparr>content_text = [Lit ''Error: Unknown tool: delete_element''], isError = True\<rparr>, []) \<and>
   ''update'' \<noteq> ''create'' \<and>
   snd (syncToCanvas example_config serving_network ''update'' example_geometry) = []"
proof -
  have c: "creation_tool ''create_arrow_line_element''" by (simp add: creation_tool_def)
  have t: "getMember example_geometry ''type'' \<noteq> JStr (expected_type ''create_arrow_line_element'')"
    by (simp add: example_geometry_def getProp_def expected_type_def)
  have i: "truthy (getMember example_geometry ''id'')"
    by (simp add: example_geometry_def getProp_def)
  have u: "\<not> creation_tool ''delete_element''" by (simp add: creation_tool_def)
  have o: "''update'' \<noteq> ''create''" by simp
  have x: "expected_type ''create_arrow_line_element'' = ''arrow-line''"
    by (simp add: expected_type_def)
  have eq: "r = (\<lparr>content_text = content_text (fst r), isError = isError (fst r)\<rparr>, snd r)"
    for r :: "tool_result \<times> http_request list"
    by (cases r) simp
  from mismatch_and_unknown_rejected
         [of "''create_arrow_line_element''" example_geometry example_config serving_network
             "''update''" example_geometry] c t i o
  have 1: "handleToolCall example_config serving_network ''create_arrow_line_element'' example_geometry =
     (\<lparr>content_text = [Lit ''Error: Failed to create element: type must be arrow-line''],
       isError = True\<rparr>, [])"
    and 3: "snd (syncToCanvas example_config serving_network ''update'' example_geometry) = []"
    by (subst eq, simp add: x, simp)
  from mismatch_and_unknown_rejected
         [of "''delete_element''" example_geometry example_config serving_network] u
  have 2: "handleToolCall example_config serving_network ''delete_element'' example_geometry =
     (\<lparr>content_text = [Lit ''Error: Unknown tool: delete_element''], isError = True\<rparr>, [])"
    by simp
  from c t i u o 1 2 3 show ?thesis by blast
qed

lemma syncToCanvas_create:
  "syncToCanvas cfg fetch ''create'' data =
     (if \<not> ENABLE_CANVAS_SYNC cfg then (JNull, [])
      else case fetch (create_request cfg data) of
             FetchResponse True status statusText (Some result) \<Rightarrow> (result, [create_request cfg data])
           | _ \<Rightarrow> (JNull, [create_request cfg data]))"
  by (simp add: syncToCanvas_def Let_def split: fetch_outcome.splits option.splits bool.splits)

lemma createElementOnCanvas_cases:
  "fst (createElementOnCanvas cfg fetch args) = args \<or>
   (\<exists>status statusText result. ENABLE_CANVAS_SYNC cfg \<and>
      fetch (create_request cfg args) = FetchResponse True status statusText (Some result) \<and>
      fst (createElementOnCanvas cfg fetch args) = optMember result ''element'')"
  by (auto simp: createElementOnCanvas_def syncToCanvas_create js_or_def optMember_def
      split: fetch_outcome.splits option.splits bool.splits)

text \<open>
  C10. For every creation request that passes the handler's checks,
  \<^verbatim>\<open>createElementOnCanvas\<close> returns a truthy value, hence never \<^verbatim>\<open>null\<close>: the
  \<^verbatim>\<open>element\<close> of the repository's answer when the call succeeded and the answer
  carries one, the submitted arguments when sync is off or the repository is
  unreachable, and never anything but one of these two. The handler therefore
  never throws \<^verbatim>\<open>"Failed to create element: HTTP server unavailable"\<close>, whatever
  the request.
\<close>

theorem server_unavailable_unreachable:
  "(well_formed_request name args \<longrightarrow>
      truthy (fst (createElementOnCanvas cfg fetch args)) \<and>
      (ENABLE_CANVAS_SYNC cfg \<and>
       fetch (create_request cfg args) = FetchResponse True status statusText (Some result) \<and>
       truthy (optMember result ''element'') \<longrightarrow>
         fst (createElementOnCanvas cfg fetch args) = optMember result ''element'') \<and>
      (\<not> ENABLE_CANVAS_SYNC cfg \<or> unreachable fetch (create_request cfg args) \<longrightarrow>
         fst (createElementOnCanvas cfg fetch args) = args) \<and>
      (fst (createElementOnCanvas cfg fetch args) = args \<or>
       (\<exists>status' statusText' result'. ENABLE_CANVAS_SYNC cfg \<and>
          fetch (create_request cfg args) = FetchResponse True status' statusText' (Some result') \<and>
          fst (createElementOnCanvas cfg fetch args) = optMember result' ''element''))) \<and>
   fst (handleToolCall_try cfg fetch name args) \<noteq> Inl HttpServerUnavailable"
proof (intro conjI impI)
  show "fst (createElementOnCanvas cfg fetch args) = args \<or>
       (\<exists>status' statusText' result'. ENABLE_CANVAS_SYNC cfg \<and>
          fetch (create_request cfg args) = FetchResponse True status' statusText' (Some result') \<and>
          fst (createElementOnCanvas cfg fetch args) = optMember result' ''element'')"
    by (rule createElementOnCanvas_cases)
next
  assume w: "well_formed_request name args"
  then have ta: "truthy args"
    using truthy_id_object[of args "''id''"] by (simp add: well_formed_request_def)
  then show "truthy (fst (createElementOnCanvas cfg fetch args))"
    by (rule truthy_createElementOnCanvas)
  {
    assume "ENABLE_CANVAS_SYNC cfg \<and>
       fetch (create_request cfg args) = FetchResponse True status statusText (Some result) \<and>
       truthy (optMember result ''element'')"
    then show "fst (createElementOnCanvas cfg fetch args) = optMember result ''element''"
      by (simp add: createElementOnCanvas_def syncToCanvas_def js_or_def)
  }
  {
    assume "\<not> ENABLE_CANVAS_SYNC cfg \<or> unreachable fetch (create_request cfg args)"
    then have "fst (syncToCanvas cfg fetch ''create'' args) = JNull"
      using syncToCanvas_disabled[of cfg fetch "''create''" args]
        syncToCanvas_unreachable[of cfg fetch args]
      by (cases "ENABLE_CANVAS_SYNC cfg") auto
    then show "fst (createElementOnCanvas cfg fetch args) = args"
      by (simp add: createElementOnCanvas_fallback)
  }
next
  show "fst (handleToolCall_try cfg fetch name args) \<noteq> Inl HttpServerUnavailable"
  proof (cases "truthy (getMember args ''id'')")
    case True
    then have "truthy args" using truthy_id_object by blast
    then have "truthy (fst (createElementOnCanvas cfg fetch args))"
      by (rule truthy_createElementOnCanvas)
    then show ?thesis
      by (auto simp: handleToolCall_try_def split: prod.splits)
  next
    case False
    then show ?thesis by (auto simp: handleToolCall_try_def)
  qed
qed

text \<open>
  The rectangle of the scenario: the repository that answers gives back its
  stored element, the one that refuses the connection leaves the submitted
  arguments, and neither ends in the error.
\<close>

theorem server_unavailable_unreachable_witness:
  "well_formed_request ''create_geometry_element'' example_geometry \<and>
   ENABLE_CANVAS_SYNC example_config \<and>
   fst (createElementOnCanvas example_config serving_network example_geometry) = stored_geometry \<and>
   truthy stored_geometry \<and>
   unreachable refusing_network (create_request example_config example_geometry) \<and>
   fst (createElementOnCanvas example_config refusing_network example_geometry) = example_geometry \<and>
   truthy example_geometry \<and>
   fst (handleToolCall_try example_config refusing_network ''create_geometry_element'' example_geometry)
     \<noteq> Inl HttpServerUnavailable"
proof -
  note w = example_geometry_well_formed
  have on: "ENABLE_CANVAS_SYNC example_config" by (simp add: example_config_def)
  let ?r = "JObj [(''success'', JBool True), (''element'', stored_geometry)]"
  have f: "serving_network (create_request example_config example_geometry) =
      FetchResponse True 200 ''OK'' (Some ?r)"
    by (simp add: serving_network_def)
  have m: "optMember ?r ''element'' = stored_geometry"
    by (simp add: optMember_def getProp_def)
  have ts: "truthy stored_geometry" by (simp add: stored_geometry_def)
  have u: "unreachable refusing_network (create_request example_config example_geometry)"
    by (simp add: unreachable_def refusing_network_def)
  from server_unavailable_unreachable
         [of "''create_geometry_element''" example_geometry example_config serving_network
             200 "''OK''" ?r]
       w on f m ts
  have 1: "fst (createElementOnCanvas example_config serving_network example_geometry) = stored_geometry"
    by simp
  from server_unavailable_unreachable
         [of "''create_geometry_element''" example_geometry example_config refusing_network
             0 "[]" JNull]
       w u
  have 2: "truthy (fst (createElementOnCanvas example_config refusing_network example_geometry))"
    and 3: "fst (createElementOnCanvas example_config refusing_network example_geometry) = example_geometry"
    and 4: "fst (handleToolCall_try example_config refusing_network ''create_geometry_element'' example_geometry)
     \<noteq> Inl HttpServerUnavailable"
    by blast+
  from 2 3 have 5: "truthy example_geometry" by simp
  from w on 1 ts u 3 4 5 show ?thesis by blast
qed

section \<open>The client: the claims\<close>

lemma getMember_type_object:
  "getMember element ''type'' = JStr t \<Longrightarrow> \<exists>kvs. element = JObj kvs"
  by (cases element) simp_all

lemma convertPlaitElement_geometry:
  assumes "getMember element ''type'' = JStr ''geometry''"
  shows "convertPlaitElement env element =
     Some (JObj (setProp (setProp (spread (codeUnits env) element) ''id'' (JStr (idCreator env)))
             ''text''
             (buildText env (js_or (getMember element ''text'') (JStr []))
                            (js_or (getMember element ''textAlign'') (JStr ''center'')))))"
proof -
  from assms obtain kvs where "element = JObj kvs" using getMember_type_object by blast
  with assms show ?thesis by (simp add: convertPlaitElement_def)
qed

lemma convertPlaitElement_arrow_line:
  assumes "getMember element ''type'' = JStr ''arrow-line''"
    and "mappable_texts (getMember element ''texts'')"
  shows "convertPlaitElement env element =
     Some (JObj (setProp (setProp (spread (codeUnits env) element) ''id'' (JStr (idCreator env)))
             ''texts'' (mapped_texts env (getMember element ''texts''))))"
proof -
  from assms(1) obtain kvs where e: "element = JObj kvs" using getMember_type_object by blast
  from assms show ?thesis
    unfolding e by (cases "getProp kvs ''texts''") (simp_all add: convertPlaitElement_def)
qed

lemma convertPlaitElement_throws:
  assumes "nullish element \<or>
     (getMember element ''type'' = JStr ''arrow-line'' \<and> \<not> mappable_texts (getMember element ''texts''))"
  shows "convertPlaitElement env element = None"
  using assms
proof
  assume "nullish element"
  then show ?thesis by (simp add: convertPlaitElement_def)
next
  assume a: "getMember element ''type'' = JStr ''arrow-line'' \<and>
     \<not> mappable_texts (getMember element ''texts'')"
  then obtain kvs where e: "element = JObj kvs" using getMember_type_object by blast
  from a show ?thesis
    unfolding e by (cases "getProp kvs ''texts''") (simp_all add: convertPlaitElement_def)
qed

lemma inserted:
  assumes "ws_type data = ''element_created''" and "boardRef st = Some children"
    and "convertPlaitElement env (ws_element data) = Some node"
  shows "handleWebSocketMessage env st data =
     st\<lparr>boardRef := Some (insertNode env children node [length children])\<rparr>"
  using assms by (simp add: handleWebSocketMessage_def)

lemma elements_handleWebSocketMessage:
  "elements (handleWebSocketMessage env st data) = elements st"
  by (simp add: handleWebSocketMessage_def split: option.splits)

text \<open>
  C8, as amended. A message other than \<^verbatim>\<open>element_created\<close>, \<^verbatim>\<open>elements_synced\<close>
  and \<^verbatim>\<open>sync_status\<close> among them, leaves the client's state as it is. On
  \<^verbatim>\<open>element_created\<close>, while the board exists: for an element of type geometry,
  and for one of type arrow-line whose \<^verbatim>\<open>texts\<close> is absent or an array without
  a \<^verbatim>\<open>null\<close> entry, the client hands to \<^verbatim>\<open>insertNode\<close>, at the end of the
  board's children, a node that has the id that \<^verbatim>\<open>idCreator\<close> returned, the
  \<^verbatim>\<open>text\<close> (or the \<^verbatim>\<open>texts\<close>) rebuilt with \<^verbatim>\<open>buildText\<close>, and every other
  property of the element as received, \<^verbatim>\<open>boundElements\<close> and \<^verbatim>\<open>containerId\<close>
  included: the Binding Validator is not run. When the board does not exist
  yet, when the message has no element, or when the \<^verbatim>\<open>texts\<close> of an arrow-line
  cannot be mapped (it is not an array, or it has a \<^verbatim>\<open>null\<close> entry), the
  exception is caught and the state stays as it is. No message changes the
  React state \<^verbatim>\<open>elements\<close>.
\<close>

theorem handleWebSocketMessage_effect:
  "(ws_type data \<noteq> ''element_created'' \<longrightarrow> handleWebSocketMessage env st data = st) \<and>
   (ws_type data = ''element_created'' \<and> boardRef st = Some children \<and>
    getMember (ws_element data) ''type'' = JStr ''geometry'' \<longrightarrow>
      (\<exists>node.
         handleWebSocketMessage env st data =
           st\<lparr>boardRef := Some (insertNode env children (JObj node) [length children])\<rparr> \<and>
         getProp node ''id'' = JStr (idCreator env) \<and>
         getProp node ''text'' =
           buildText env (js_or (getMember (ws_element data) ''text'') (JStr []))
                         (js_or (getMember (ws_element data) ''textAlign'') (JStr ''center'')) \<and>
         (\<forall>k. k \<noteq> ''id'' \<and> k \<noteq> ''text'' \<longrightarrow>
            getProp node k = getMember (ws_element data) k))) \<and>
   (ws_type data = ''element_created'' \<and> boardRef st = Some children \<and>
    getMember (ws_element data) ''type'' = JStr ''arrow-line'' \<and>
    mappable_texts (getMember (ws_element data) ''texts'') \<longrightarrow>
      (\<exists>node.
         handleWebSocketMessage env st data =
           st\<lparr>boardRef := Some (insertNode env children (JObj node) [length children])\<rparr> \<and>
         getProp node ''id'' = JStr (idCreator env) \<and>
         getProp node ''texts'' = mapped_texts env (getMember (ws_element data) ''texts'') \<and>
         (\<forall>k. k \<noteq> ''id'' \<and> k \<noteq> ''texts'' \<longrightarrow>
            getProp node k = getMember (ws_element data) k))) \<and>
   (ws_type data = ''element_created'' \<and>
    (boardRef st = None \<or> nullish (ws_element data) \<or>
     (getMember (ws_element data) ''type'' = JStr ''arrow-line'' \<and>
      \<not> mappable_texts (getMember (ws_element data) ''texts''))) \<longrightarrow>
      handleWebSocketMessage env st data = st) \<and>
   elements (handleWebSocketMessage env st data) = elements st"
proof (intro conjI impI)
  assume "ws_type data \<noteq> ''element_created''"
  then show "handleWebSocketMessage env st data = st"
    by (simp add: handleWebSocketMessage_def)
next
  let ?e = "ws_element data"
  assume a: "ws_type data = ''element_created'' \<and> boardRef st = Some children \<and>
    getMember ?e ''type'' = JStr ''geometry''"
  then obtain kvs where e: "?e = JObj kvs" using getMember_type_object by blast
  let ?text = "buildText env (js_or (getMember ?e ''text'') (JStr []))
                 (js_or (getMember ?e ''textAlign'') (JStr ''center''))"
  let ?node = "setProp (setProp kvs ''id'' (JStr (idCreator env))) ''text'' ?text"
  from a have c: "convertPlaitElement env ?e = Some (JObj ?node)"
    using convertPlaitElement_geometry[of ?e env] by (simp add: e)
  have "handleWebSocketMessage env st data =
           st\<lparr>boardRef := Some (insertNode env children (JObj ?node) [length children])\<rparr>"
    using a c by (intro inserted) simp_all
  moreover have "getProp ?node ''id'' = JStr (idCreator env)"
    by (simp add: getProp_setProp)
  moreover have "getProp ?node ''text'' = ?text"
    by (simp add: getProp_setProp)
  moreover have "\<forall>k. k \<noteq> ''id'' \<and> k \<noteq> ''text'' \<longrightarrow> getProp ?node k = getMember ?e k"
    by (simp add: getProp_setProp e)
  ultimately show "\<exists>node.
         handleWebSocketMessage env st data =
           st\<lparr>boardRef := Some (insertNode env children (JObj node) [length children])\<rparr> \<and>
         getProp node ''id'' = JStr (idCreator env) \<and>
         getProp node ''text'' = ?text \<and>
         (\<forall>k. k \<noteq> ''id'' \<and> k \<noteq> ''text'' \<longrightarrow> getProp node k = getMember ?e k)"
    by blast
next
  let ?e = "ws_element data"
  assume a: "ws_type data = ''element_created'' \<and> boardRef st = Some children \<and>
    getMember ?e ''type'' = JStr ''arrow-line'' \<and> mappable_texts (getMember ?e ''texts'')"
  then obtain kvs where e: "?e = JObj kvs" using getMember_type_object by blast
  let ?texts = "mapped_texts env (getMember ?e ''texts'')"
  let ?node = "setProp (setProp kvs ''id'' (JStr (idCreator env))) ''texts'' ?texts"
  from a have c: "convertPlaitElement env ?e = Some (JObj ?node)"
    using convertPlaitElement_arrow_line[of ?e env] by (simp add: e)
  have "handleWebSocketMessage env st data =
           st\<lparr>boardRef := Some (insertNode env children (JObj ?node) [length children])\<rparr>"
    using a c by (intro inserted) simp_all
  moreover have "getProp ?node ''id'' = JStr (idCreator env)"
    by (simp add: getProp_setProp)
  moreover have "getProp ?node ''texts'' = ?texts"
    by (simp add: getProp_setProp)
  moreover have "\<forall>k. k \<noteq> ''id'' \<and> k \<noteq> ''texts'' \<longrightarrow> getProp ?node k = getMember ?e k"
    by (simp add: getProp_setProp e)
  ultimately show "\<exists>node.
         handleWebSocketMessage env st data =
           st\<lparr>boardRef := Some (insertNode env children (JObj node) [length children])\<rparr> \<and>
         getProp node ''id'' = JStr (idCreator env) \<and>
         getProp node ''texts'' = ?texts \<and>
         (\<forall>k. k \<noteq> ''id'' \<and> k \<noteq> ''texts'' \<longrightarrow> getProp node k = getMember ?e k)"
    by blast
next
  let ?e = "ws_element data"
  assume a: "ws_type data = ''element_created'' \<and>
    (boardRef st = None \<or> nullish ?e \<or>
     (getMember ?e ''type'' = JStr ''arrow-line'' \<and> \<not> mappable_texts (getMember ?e ''texts'')))"
  show "handleWebSocketMessage env st data = st"
  proof (cases "boardRef st = None")
    case True
    then show ?thesis by (simp add: handleWebSocketMessage_def split: option.splits)
  next
    case False
    with a have "convertPlaitElement env ?e = None"
      by (intro convertPlaitElement_throws) blast
    then show ?thesis by (simp add: handleWebSocketMessage_def)
  qed
next
  show "elements (handleWebSocketMessage env st data) = elements st"
    by (rule elements_handleWebSocketMessage)
qed

lemma video_message_inserted:
  "handleWebSocketMessage example_environment initial_client video_message
     = initial_client\<lparr>boardRef := Some [JObj video_node]\<rparr>"
  by (simp add: handleWebSocketMessage_def convertPlaitElement_def video_message_def
      video_element_def video_node_def example_environment_def initial_client_def
      getProp_def setProp_def js_or_def)

lemma arrow_message_inserted:
  "handleWebSocketMessage example_environment initial_client arrow_message
     = initial_client\<lparr>boardRef := Some [JObj arrow_node]\<rparr>"
  by (simp add: handleWebSocketMessage_def convertPlaitElement_def convertArrowLineText_def
      arrow_message_def labelled_arrow_def arrow_node_def example_environment_def
      initial_client_def getProp_def setProp_def js_or_def)

lemma same_node:
  assumes "initial_client\<lparr>boardRef := Some [JObj node']\<rparr>
      = initial_client\<lparr>boardRef := Some (insertNode_at [] (JObj node) [length ([]::jsval list)])\<rparr>"
  shows "node = node'"
proof -
  from assms have "boardRef (initial_client\<lparr>boardRef := Some [JObj node']\<rparr>)
      = boardRef (initial_client\<lparr>boardRef := Some (insertNode_at [] (JObj node) [0])\<rparr>)"
    by simp
  then show ?thesis by simp
qed

text \<open>
  The two acknowledgements leave the client as it is. The rectangle with the
  \<^verbatim>\<open>"video"\<close> entry is appended under the new id with that entry, the arrow
  with its label rebuilt and the \<^verbatim>\<open>containerId\<close> that names nothing. The
  rectangle before the board exists, and the arrow whose \<^verbatim>\<open>texts\<close> is a string,
  change nothing.
\<close>

theorem handleWebSocketMessage_effect_witness:
  "ws_type synced_message \<noteq> ''element_created'' \<and>
   handleWebSocketMessage example_environment initial_client synced_message = initial_client \<and>
   ws_type status_message \<noteq> ''element_created'' \<and>
   handleWebSocketMessage example_environment initial_client status_message = initial_client \<and>
   ws_type video_message = ''element_created'' \<and> boardRef initial_client = Some [] \<and>
   getMember (ws_element video_message) ''type'' = JStr ''geometry'' \<and>
   handleWebSocketMessage example_environment initial_client video_message
     = initial_client\<lparr>boardRef := Some [JObj video_node]\<rparr> \<and>
   getProp video_node ''id'' = JStr ''n1'' \<and>
   getProp video_node ''text'' = plain_buildText (JStr ''A'') (JStr ''center'') \<and>
   ''boundElements'' \<noteq> ''id'' \<and> ''boundElements'' \<noteq> ''text'' \<and>
   getProp video_node ''boundElements'' = getMember video_element ''boundElements'' \<and>
   ws_type arrow_message = ''element_created'' \<and>
   getMember (ws_element arrow_message) ''type'' = JStr ''arrow-line'' \<and>
   mappable_texts (getMember (ws_element arrow_message) ''texts'') \<and>
   handleWebSocketMessage example_environment initial_client arrow_message
     = initial_client\<lparr>boardRef := Some [JObj arrow_node]\<rparr> \<and>
   getProp arrow_node ''id'' = JStr ''n1'' \<and>
   getProp arrow_node ''texts'' =
     JArr [JObj [(''text'', plain_buildText (JStr ''yes'') JUndefined), (''position'', JNum (1 / 2))]] \<and>
   ''containerId'' \<noteq> ''id'' \<and> ''containerId'' \<noteq> ''texts'' \<and>
   getProp arrow_node ''containerId'' = JStr ''gone'' \<and>
   boardRef unmounted_client = None \<and>
   handleWebSocketMessage example_environment unmounted_client video_message = unmounted_client \<and>
   ws_type bad_arrow_message = ''element_created'' \<and>
   getMember (ws_element bad_arrow_message) ''type'' = JStr ''arrow-line'' \<and>
   \<not> mappable_texts (getMember (ws_element bad_arrow_message) ''texts'') \<and>
   handleWebSocketMessage example_environment initial_client bad_arrow_message = initial_client"
proof -
  let ?env = example_environment
  have s: "ws_type synced_message \<noteq> ''element_created''" by (simp add: synced_message_def)
  have s': "ws_type status_message \<noteq> ''element_created''" by (simp add: status_message_def)
  have v: "ws_type video_message = ''element_created''" by (simp add: video_message_def)
  have ve: "ws_element video_message = video_element" by (simp add: video_message_def)
  have vt: "getMember (ws_element video_message) ''type'' = JStr ''geometry''"
    by (simp add: video_message_def video_element_def getProp_def)
  have b: "boardRef initial_client = Some []" by (simp add: initial_client_def)
  have a: "ws_type arrow_message = ''element_created''" by (simp add: arrow_message_def)
  have ae: "ws_element arrow_message = labelled_arrow" by (simp add: arrow_message_def)
  have at: "getMember (ws_element arrow_message) ''type'' = JStr ''arrow-line''"
    by (simp add: arrow_message_def labelled_arrow_def getProp_def)
  have am: "mappable_texts (getMember (ws_element arrow_message) ''texts'')"
    by (simp add: arrow_message_def labelled_arrow_def getProp_def)
  have u: "boardRef unmounted_client = None" by (simp add: unmounted_client_def)
  have x: "ws_type bad_arrow_message = ''element_created''" by (simp add: bad_arrow_message_def)
  have xt: "getMember (ws_element bad_arrow_message) ''type'' = JStr ''arrow-line''"
    by (simp add: bad_arrow_message_def getProp_def)
  have xm: "\<not> mappable_texts (getMember (ws_element bad_arrow_message) ''texts'')"
    by (simp add: bad_arrow_message_def getProp_def)
  have k1: "''boundElements'' \<noteq> ''id'' \<and> ''boundElements'' \<noteq> ''text''" by simp
  have k2: "''containerId'' \<noteq> ''id'' \<and> ''containerId'' \<noteq> ''texts''" by simp
  have env: "idCreator ?env = ''n1''" "buildText ?env = plain_buildText"
    "insertNode ?env = insertNode_at"
    by (simp_all add: example_environment_def)
  from handleWebSocketMessage_effect [of synced_message ?env initial_client "[]"] s
  have 1: "handleWebSocketMessage ?env initial_client synced_message = initial_client" by blast
  from handleWebSocketMessage_effect [of status_message ?env initial_client "[]"] s'
  have 2: "handleWebSocketMessage ?env initial_client status_message = initial_client" by blast
  from handleWebSocketMessage_effect [of video_message ?env initial_client "[]"] v b vt
  obtain node where n: "handleWebSocketMessage ?env initial_client video_message =
           initial_client\<lparr>boardRef := Some (insertNode ?env [] (JObj node) [length ([]::jsval list)])\<rparr>"
    and n1: "getProp node ''id'' = JStr (idCreator ?env)"
    and n2: "getProp node ''text'' =
           buildText ?env (js_or (getMember (ws_element video_message) ''text'') (JStr []))
                         (js_or (getMember (ws_element video_message) ''textAlign'') (JStr ''center''))"
    and n3: "\<forall>k. k \<noteq> ''id'' \<and> k \<noteq> ''text'' \<longrightarrow>
            getProp node k = getMember (ws_element video_message) k"
    by blast
  from n have "node = video_node"
    unfolding video_message_inserted env by (rule same_node)
  with n1 n2 n3 k1
  have 3: "getProp video_node ''id'' = JStr ''n1''"
    and 4: "getProp video_node ''text'' = plain_buildText (JStr ''A'') (JStr ''center'')"
    and 5: "getProp video_node ''boundElements'' = getMember video_element ''boundElements''"
    by (simp_all add: env ve video_element_def getProp_def js_or_def)
  from handleWebSocketMessage_effect [of arrow_message ?env initial_client "[]"] a b at am
  obtain node' where m: "handleWebSocketMessage ?env initial_client arrow_message =
           initial_client\<lparr>boardRef := Some (insertNode ?env [] (JObj node') [length ([]::jsval list)])\<rparr>"
    and m1: "getProp node' ''id'' = JStr (idCreator ?env)"
    and m2: "getProp node' ''texts'' = mapped_texts ?env (getMember (ws_element arrow_message) ''texts'')"
    and m3: "\<forall>k. k \<noteq> ''id'' \<and> k \<noteq> ''texts'' \<longrightarrow>
            getProp node' k = getMember (ws_element arrow_message) k"
    by blast
  from m have "node' = arrow_node"
    unfolding arrow_message_inserted env by (rule same_node)
  with m1 m2 m3 k2
  have 6: "getProp arrow_node ''id'' = JStr ''n1''"
    and 7: "getProp arrow_node ''texts'' =
     JArr [JObj [(''text'', plain_buildText (JStr ''yes'') JUndefined), (''position'', JNum (1 / 2))]]"
    and 8: "getProp arrow_node ''containerId'' = JStr ''gone''"
    by (simp_all add: env ae labelled_arrow_def getProp_def setProp_def js_or_def
        convertArrowLineText_def example_environment_def)
  from handleWebSocketMessage_effect [of video_message ?env unmounted_client "[]"] v u
  have 9: "handleWebSocketMessage ?env unmounted_client video_message = unmounted_client" by blast
  from handleWebSocketMessage_effect [of bad_arrow_message ?env initial_client "[]"] x xt xm
  have 10: "handleWebSocketMessage ?env initial_client bad_arrow_message = initial_client" by blast
  from s s' v b vt a at am u x xt xm k1 k2 1 2 3 4 5 6 7 8 9 10
    video_message_inserted arrow_message_inserted
  show ?thesis by blast
qed

text \<open>
  C8 as stated fails: after the \<^verbatim>\<open>element_created\<close> message for the rectangle
  bound to a \<^verbatim>\<open>"video"\<close> entry, the projection holds a node that the Binding
  Validator would change, so the node has not been through it.
\<close>

theorem element_created_counterexample:
  "boardRef (handleWebSocketMessage example_environment initial_client video_message)
     = Some [JObj video_node] \<and>
   \<not> validated_node video_node"
proof -
  have "\<not> validated_node video_node"
    by (simp add: validated_node_def video_node_def validateAndFixBindings_def
      elementMap_of_def fixElement_def fixBoundElements_def fixContainerId_def binding_ok_def
      Map_get_def array_includes_def getProp_def setProp_def)
  then show ?thesis by (simp add: video_message_inserted)
qed







end
